theory Spec2Isabelle
  imports Main "HOL-Library.Word"
begin

unbundle bit_operations_syntax

section \<open>Strings\<close>

text \<open>
  Go strings are byte sequences; they are modelled as \<^typ>\<open>string\<close>. The three
  helpers below are the functions of Go's \<^verbatim>\<open>strings\<close> package that the
  interpreter calls.
\<close>

definition HasPrefix :: "string \<Rightarrow> string \<Rightarrow> bool" where
  "HasPrefix s prefix = (length prefix \<le> length s \<and> take (length prefix) s = prefix)"

definition HasSuffix :: "string \<Rightarrow> string \<Rightarrow> bool" where
  "HasSuffix s suffix =
     (length suffix \<le> length s \<and> drop (length s - length suffix) s = suffix)"

definition TrimPrefix :: "string \<Rightarrow> string \<Rightarrow> string" where
  "TrimPrefix s prefix = (if HasPrefix s prefix then drop (length prefix) s else s)"

text \<open>
  \<^verbatim>\<open>strings.Replace(s, old, new, 1)\<close> for a non-empty \<^verbatim>\<open>old\<close>: the leftmost
  occurrence of \<^verbatim>\<open>old\<close> is replaced, the rest of the string is kept.
\<close>

fun Replace1 :: "string \<Rightarrow> string \<Rightarrow> string \<Rightarrow> string" where
  "Replace1 [] old new = []"
| "Replace1 (c # cs) old new =
     (if HasPrefix (c # cs) old then new @ drop (length old) (c # cs)
      else c # Replace1 cs old new)"

section \<open>Scanner errors\<close>

text \<open>
  \<^verbatim>\<open>token.Position\<close> and \<^verbatim>\<open>scanner.Error\<close> of the Go standard library, with
  the rendering \<^verbatim>\<open>Error()\<close> that the REPL prints.
\<close>

record Position =
  Filename :: string
  Offset :: int
  Line :: int
  Column :: int

record scanner_Error =
  Pos :: Position
  Msg :: string

fun digits :: "nat \<Rightarrow> string" where
  "digits n = (if n < 10 then [''0123456789'' ! n]
               else digits (n div 10) @ [''0123456789'' ! (n mod 10)])"

definition Itoa :: "int \<Rightarrow> string" where
  "Itoa i = (if i < 0 then CHR ''-'' # digits (nat (- i)) else digits (nat i))"

definition Position_IsValid :: "Position \<Rightarrow> bool" where
  "Position_IsValid pos = (Line pos > 0)"

definition Position_String :: "Position \<Rightarrow> string" where
  "Position_String pos =
     (let s = Filename pos;
          s = (if Position_IsValid pos
               then (if s \<noteq> [] then s @ '':'' else s) @ Itoa (Line pos)
                    @ (if Column pos \<noteq> 0 then '':'' @ Itoa (Column pos) else [])
               else s)
      in if s = [] then ''-'' else s)"

definition scanner_Error_Error :: "scanner_Error \<Rightarrow> string" where
  "scanner_Error_Error e =
     (if Filename (Pos e) \<noteq> [] \<or> Position_IsValid (Pos e)
      then Position_String (Pos e) @ '': '' @ Msg e
      else Msg e)"

section \<open>The REPL's test for incomplete input\<close>

text \<open>
  \<^verbatim>\<open>ignoreScannerError\<close> (interp.go): true when the scanner error can be ignored so
  that the caller grabs one more line before parsing again.
\<close>

text \<open>
  The three string constants of the function. The single quote is written
  \<^term>\<open>CHR 0x27\<close>: the texts are \<^verbatim>\<open>found 'EOF'\<close>,
  \<^verbatim>\<open>raw string literal not terminated\<close> and \<^verbatim>\<open>expected operand, found '}'\<close>.
\<close>

definition found_EOF :: string where
  "found_EOF = ''found '' @ [CHR 0x27] @ ''EOF'' @ [CHR 0x27]"

definition raw_not_terminated :: string where
  "raw_not_terminated = ''raw string literal not terminated''"

definition expected_operand :: string where
  "expected_operand = ''expected operand, found '' @ [CHR 0x27] @ ''}'' @ [CHR 0x27]"

definition ignoreScannerError :: "scanner_Error \<Rightarrow> string \<Rightarrow> bool" where
  "ignoreScannerError e s =
     (let msg = Msg e in
      if HasSuffix msg found_EOF then True
      else if msg = raw_not_terminated then True
      else if HasPrefix msg expected_operand \<and> \<not> HasSuffix s ''}'' then True
      else False)"


section \<open>Values, errors and panics\<close>

text \<open>
  Host values are kept abstract (the type variable \<open>'v\<close>). A Go interface value that may
  be nil and a \<^verbatim>\<open>reflect.Value\<close> that may be the zero (invalid) Value are both
  options: \<^term>\<open>None\<close> is nil, respectively the invalid Value.
\<close>

type_synonym 'v iface = "'v option"

type_synonym 'v reflect_Value = "'v option"

text \<open>\<^verbatim>\<open>Panic\<close> (interp.go): an error recovered from a panic call in interpreted code.\<close>

record 'v Panic =
  Value :: "'v iface"
  Callers :: "nat list"
  Stack :: string

text \<open>The two errors a \<^verbatim>\<open>context.Context\<close> reports once its Done channel is closed.\<close>

datatype ctx_error = Canceled | DeadlineExceeded

text \<open>
  The dynamic types of an \<^verbatim>\<open>error\<close> that the interpreter tells apart:
  \<^verbatim>\<open>scanner.ErrorList\<close>, \<^verbatim>\<open>Panic\<close>, the errors of a context, and any other
  error, of which only the text is kept.
\<close>

datatype 'v error =
    ErrorList "scanner_Error list"
  | PanicError "'v Panic"
  | ContextError ctx_error
  | OtherError string

text \<open>
  What a call of a function can do besides returning: panic. \<^term>\<open>Panicked r pcs stk\<close>
  is a panic with value \<open>r\<close> (\<^verbatim>\<open>panic(nil)\<close> is \<^term>\<open>None\<close>); \<open>pcs\<close> are the
  return addresses that \<^verbatim>\<open>runtime.Callers(1, ...)\<close> finds on the stack of the
  panicking goroutine and \<open>stk\<close> is the text \<^verbatim>\<open>debug.Stack()\<close> returns there.
\<close>

datatype ('v, 'a) outcome = Panicked "'v iface" "nat list" string | Done 'a

section \<open>Symbols, scopes and frames\<close>

datatype tcat =
    boolT | uint8T | complex64T | complex128T | errorT | float32T | float64T
  | intT | int8T | int16T | int32T | int64T | interfaceT | stringT
  | uintT | uint16T | uint32T | uint64T | uintptrT | nilT | srcPkgT | binPkgT

datatype sKind = undefSym | typeSym | constSym | bltnSym | pkgSym

text \<open>
  The fields of \<^verbatim>\<open>itype\<close> and \<^verbatim>\<open>symbol\<close> that interp.go sets. The field
  \<^verbatim>\<open>typ\<close> is written \<open>styp\<close> and \<^verbatim>\<open>name\<close> of a type \<open>tname\<close>; the
  \<^verbatim>\<open>scope\<close> pointer of a type is left out.
\<close>

record itype =
  cat :: tcat
  tname :: string
  path :: string
  untyped :: bool

record 'n symbol =
  kind :: sKind
  styp :: "itype option"
  rval :: "bool option"
  builtin :: "string option"
  node :: "'n option"

record ('n, 't) scope =
  global :: bool
  sym :: "string \<rightharpoonup> 'n symbol"
  types :: "'t list"

text \<open>
  Of a \<^verbatim>\<open>frame\<close>, the run-id (\<^verbatim>\<open>id\<close>, written \<open>fid\<close>) and the values.
\<close>

record 'v frame =
  fid :: "64 word"
  fdata :: "'v reflect_Value list"

section \<open>Options and streams\<close>

text \<open>
  An input stream either has no \<^verbatim>\<open>Stat\<close> method, or has one, which returns an
  error or a file mode; for such a stream the flag says whether it is a terminal, a
  fact of the system that \<^verbatim>\<open>Stat\<close> does not report (a terminal is a character
  device, and so are \<^verbatim>\<open>/dev/null\<close> and a serial line). An output stream is known
  by a number.
\<close>

datatype Reader = NoStat | WithStat "string + 32 word" bool

datatype Writer = Writer nat

definition ModeCharDevice :: "32 word" where
  "ModeCharDevice = push_bit 21 1"

record opt =
  astDot :: bool
  cfgDot :: bool
  dotCmd :: string
  noRun :: bool
  fastChan :: bool
  GOPATH :: string
  BuildTags :: "string list"
  stdin :: Reader
  stdout :: Writer
  stderr :: Writer

record Options =
  GoPath :: string
  Options_BuildTags :: "string list"
  Stdin :: "Reader option"
  Stdout :: "Writer option"
  Stderr :: "Writer option"

text \<open>
  What \<^verbatim>\<open>New\<close> reads of the process: the environment, the standard streams and the
  build tags of \<^verbatim>\<open>build.Default\<close>.
\<close>

record os =
  Getenv :: "string \<Rightarrow> string"
  os_Stdin :: Reader
  os_Stdout :: Writer
  os_Stderr :: Writer
  Default_BuildTags :: "string list"

text \<open>\<^verbatim>\<open>strconv.ParseBool\<close>: the value, and whether the text was not a boolean.\<close>

definition ParseBool :: "string \<Rightarrow> bool \<times> bool" where
  "ParseBool str =
     (if str \<in> set [''1'', ''t'', ''T'', ''TRUE'', ''true'', ''True''] then (True, False)
      else if str \<in> set [''0'', ''f'', ''F'', ''FALSE'', ''false'', ''False''] then (False, False)
      else (False, True))"

section \<open>The interpreter\<close>

text \<open>
  A channel of \<^verbatim>\<open>struct{}\<close> that is only ever closed: nil, open or closed.
\<close>

datatype chan = NilChan | OpenChan | ClosedChan

text \<open>
  A value of the registry of binary packages: a value that a caller exported, the
  \<^verbatim>\<open>_error\<close> wrapper that \<^verbatim>\<open>New\<close> registers, or the interpreter's own
  definition of a standard library symbol, bound to the interpreter's streams by
  \<^verbatim>\<open>fixStdio\<close> (package path and symbol name).
\<close>

datatype 'v hostsym = Export 'v | Wrapper_error | Stdio string string

type_synonym 'v Exports = "string \<rightharpoonup> (string \<rightharpoonup> 'v hostsym)"

text \<open>
  \<^verbatim>\<open>Interpreter\<close>: the field \<^verbatim>\<open>id\<close> is written \<open>interp_id\<close> and
  \<^verbatim>\<open>done\<close> is \<open>done_ch\<close>. \<open>hooks\<close> holds the symbol maps handed to
  \<^verbatim>\<open>hooks.Parse\<close>, in order. The file set, the node counter and the nodes are the
  state \<open>rest\<close> of type \<open>'w\<close>, which only the analysis and execution stages read
  and write.
\<close>

record ('v, 'n, 't, 'w) Interpreter =
  interp_id :: "64 word"
  name :: string
  opt :: opt
  cancelChan :: bool
  binPkg :: "'v Exports"
  frame :: "'v frame"
  universe :: "('n, 't) scope"
  scopes :: "string \<rightharpoonup> ('n, 't) scope"
  srcPkg :: "string \<rightharpoonup> (string \<rightharpoonup> 'n symbol)"
  pkgNames :: "string \<rightharpoonup> string"
  done_ch :: chan
  hooks :: "(string \<times> 'v hostsym) list list"
  rest :: 'w

definition mainID :: string where
  "mainID = ''main''"

definition DefaultSourceName :: string where
  "DefaultSourceName = ''_.go''"


subsection \<open>Creation\<close>

definition tsym :: "tcat \<Rightarrow> string \<Rightarrow> 'n symbol" where
  "tsym c nm = \<lparr>kind = typeSym, styp = Some \<lparr>cat = c, tname = nm, path = [], untyped = False\<rparr>,
                 rval = None, builtin = None, node = None\<rparr>"

definition csym :: "tcat \<Rightarrow> string \<Rightarrow> bool option \<Rightarrow> 'n symbol" where
  "csym c nm v = \<lparr>kind = constSym, styp = Some \<lparr>cat = c, tname = nm, path = [], untyped = True\<rparr>,
                   rval = v, builtin = None, node = None\<rparr>"

definition bsym :: "string \<Rightarrow> 'n symbol" where
  "bsym gen = \<lparr>kind = bltnSym, styp = None, rval = None, builtin = Some gen, node = None\<rparr>"

text \<open>
  \<^verbatim>\<open>initUniverse\<close>: the predefined types, constants, nil and builtins. A builtin is
  recorded with the name of its generator; \<^verbatim>\<open>untypedBool()\<close> and
  \<^verbatim>\<open>untypedInt()\<close> are the untyped types of category bool and int.
\<close>

definition initUniverse :: "('n, 't) scope" where
  "initUniverse = \<lparr>global = True, sym = map_of [
     (''bool'', tsym boolT ''bool''),
     (''byte'', tsym uint8T ''uint8''),
     (''complex64'', tsym complex64T ''complex64''),
     (''complex128'', tsym complex128T ''complex128''),
     (''error'', tsym errorT ''error''),
     (''float32'', tsym float32T ''float32''),
     (''float64'', tsym float64T ''float64''),
     (''int'', tsym intT ''int''),
     (''int8'', tsym int8T ''int8''),
     (''int16'', tsym int16T ''int16''),
     (''int32'', tsym int32T ''int32''),
     (''int64'', tsym int64T ''int64''),
     (''interface{}'', tsym interfaceT []),
     (''rune'', tsym int32T ''int32''),
     (''string'', tsym stringT ''string''),
     (''uint'', tsym uintT ''uint''),
     (''uint8'', tsym uint8T ''uint8''),
     (''uint16'', tsym uint16T ''uint16''),
     (''uint32'', tsym uint32T ''uint32''),
     (''uint64'', tsym uint64T ''uint64''),
     (''uintptr'', tsym uintptrT ''uintptr''),
     (''false'', csym boolT ''bool'' (Some False)),
     (''true'', csym boolT ''bool'' (Some True)),
     (''iota'', csym intT ''int'' None),
     (''nil'', \<lparr>kind = undefSym, styp = Some \<lparr>cat = nilT, tname = [], path = [], untyped = True\<rparr>,
                rval = None, builtin = None, node = None\<rparr>),
     (''append'', bsym ''_append''),
     (''cap'', bsym ''_cap''),
     (''close'', bsym ''_close''),
     (''complex'', bsym ''_complex''),
     (''imag'', bsym ''_imag''),
     (''copy'', bsym ''_copy''),
     (''delete'', bsym ''_delete''),
     (''len'', bsym ''_len''),
     (''make'', bsym ''_make''),
     (''new'', bsym ''_new''),
     (''panic'', bsym ''_panic''),
     (''print'', bsym ''_print''),
     (''println'', bsym ''_println''),
     (''real'', bsym ''_real''),
     (''recover'', bsym ''_recover'')], types = []\<rparr>"

text \<open>
  \<^verbatim>\<open>New\<close>: \<open>w\<close> is the initial state of the file set and of the nodes. The
  channel \<^verbatim>\<open>done\<close> and \<^verbatim>\<open>cancelChan\<close> keep their zero values.
\<close>

definition New :: "os \<Rightarrow> 'w \<Rightarrow> Options \<Rightarrow> ('v, 'n, 't, 'w) Interpreter" where
  "New env w options =
     \<lparr>interp_id = 0,
      name = [],
      opt = \<lparr>astDot = fst (ParseBool (Getenv env ''YAEGI_AST_DOT'')),
             cfgDot = fst (ParseBool (Getenv env ''YAEGI_CFG_DOT'')),
             dotCmd = Getenv env ''YAEGI_DOT_CMD'',
             noRun = fst (ParseBool (Getenv env ''YAEGI_NO_RUN'')),
             fastChan = fst (ParseBool (Getenv env ''YAEGI_FAST_CHAN'')),
             GOPATH = GoPath options,
             BuildTags = (if length (Options_BuildTags options) > 0
                          then Options_BuildTags options else Default_BuildTags env),
             stdin = (case Stdin options of None \<Rightarrow> os_Stdin env | Some r \<Rightarrow> r),
             stdout = (case Stdout options of None \<Rightarrow> os_Stdout env | Some x \<Rightarrow> x),
             stderr = (case Stderr options of None \<Rightarrow> os_Stderr env | Some x \<Rightarrow> x)\<rparr>,
      cancelChan = False,
      binPkg = [[] \<mapsto> [''_error'' \<mapsto> Wrapper_error]],
      frame = \<lparr>fid = 0, fdata = []\<rparr>,
      universe = initUniverse,
      scopes = Map.empty,
      srcPkg = Map.empty,
      pkgNames = Map.empty,
      done_ch = NilChan,
      hooks = [],
      rest = w\<rparr>"

definition runid :: "('v, 'n, 't, 'w) Interpreter \<Rightarrow> 64 word" where
  "runid interp = interp_id interp"

subsection \<open>The stages of an evaluation\<close>

text \<open>
  The functions that \<^verbatim>\<open>eval\<close> calls and that live in other files of the package
  are parameters of the model, gathered in a record. Each is a method with full access
  to the interpreter: it takes the interpreter and returns it changed, together with
  what it returns or the panic it raises. \<open>isFileStmt\<close> is the test
  \<^verbatim>\<open>root.kind == fileStmt\<close>, \<open>start\<close> the field \<^verbatim>\<open>start\<close> of a node,
  \<open>asNode\<close> the type assertion \<^verbatim>\<open>res.Interface().(*node)\<close>, \<open>Zero\<close> is
  \<^verbatim>\<open>reflect.New(t).Elem()\<close>, and \<open>runtimePanic\<close> is the panic of the Go runtime
  for a nil dereference in \<^verbatim>\<open>eval\<close> itself. \<open>genValue\<close> stands for
  \<^verbatim>\<open>genValue(root)\<close> applied to the frame of the interpreter, and
  \<open>genFunctionWrapper\<close> likewise. The dot writers take the command line.

  Two fields describe the Go runtime under which the package runs. \<open>panicnil\<close> is
  true when \<^verbatim>\<open>panic(nil)\<close> keeps the value nil, so that \<^verbatim>\<open>recover()\<close> returns
  nil for it: the behaviour of Go before 1.21, kept later under the setting
  \<^verbatim>\<open>GODEBUG=panicnil=1\<close>, which is the default for a main module whose
  \<^verbatim>\<open>go.mod\<close> names an earlier release. When it is false the runtime replaces the
  nil value by the value \<open>PanicNilError\<close> (a \<^verbatim>\<open>*runtime.PanicNilError\<close>).
\<close>

record ('v, 'n, 't, 'w) prims =
  ast :: "('v, 'n, 't, 'w) Interpreter \<Rightarrow> string \<Rightarrow> string \<Rightarrow> bool
          \<Rightarrow> ('v, string \<times> 'n option \<times> 'v error option) outcome \<times> ('v, 'n, 't, 'w) Interpreter"
  defaultDotCmd :: "string \<Rightarrow> string \<Rightarrow> string"
  node_astDot :: "('v, 'n, 't, 'w) Interpreter \<Rightarrow> 'n \<Rightarrow> string \<Rightarrow> string
          \<Rightarrow> ('v, unit) outcome \<times> ('v, 'n, 't, 'w) Interpreter"
  gtaRetry :: "('v, 'n, 't, 'w) Interpreter \<Rightarrow> 'n list \<Rightarrow> string
          \<Rightarrow> ('v, 'v error option) outcome \<times> ('v, 'n, 't, 'w) Interpreter"
  cfg :: "('v, 'n, 't, 'w) Interpreter \<Rightarrow> 'n \<Rightarrow> string
          \<Rightarrow> ('v, 'n list \<times> 'v error option) outcome \<times> ('v, 'n, 't, 'w) Interpreter"
  node_cfgDot :: "('v, 'n, 't, 'w) Interpreter \<Rightarrow> 'n \<Rightarrow> string
          \<Rightarrow> ('v, unit) outcome \<times> ('v, 'n, 't, 'w) Interpreter"
  isFileStmt :: "'n \<Rightarrow> bool"
  start :: "'n \<Rightarrow> 'n"
  setExec :: "('v, 'n, 't, 'w) Interpreter \<Rightarrow> 'n
          \<Rightarrow> ('v, unit) outcome \<times> ('v, 'n, 't, 'w) Interpreter"
  genRun :: "('v, 'n, 't, 'w) Interpreter \<Rightarrow> 'n
          \<Rightarrow> ('v, 'v error option) outcome \<times> ('v, 'n, 't, 'w) Interpreter"
  Zero :: "'t \<Rightarrow> 'v"
  run :: "('v, 'n, 't, 'w) Interpreter \<Rightarrow> 'n \<Rightarrow> bool
          \<Rightarrow> ('v, unit) outcome \<times> ('v, 'n, 't, 'w) Interpreter"
  genGlobalVars :: "('v, 'n, 't, 'w) Interpreter \<Rightarrow> 'n list \<Rightarrow> ('n, 't) scope option
          \<Rightarrow> ('v, 'n \<times> 'v error option) outcome \<times> ('v, 'n, 't, 'w) Interpreter"
  genValue :: "('v, 'n, 't, 'w) Interpreter \<Rightarrow> 'n
          \<Rightarrow> ('v, 'v reflect_Value) outcome \<times> ('v, 'n, 't, 'w) Interpreter"
  asNode :: "'v \<Rightarrow> 'n option"
  genFunctionWrapper :: "('v, 'n, 't, 'w) Interpreter \<Rightarrow> 'n
          \<Rightarrow> ('v, 'v reflect_Value) outcome \<times> ('v, 'n, 't, 'w) Interpreter"
  runtimePanic :: "'v iface \<times> nat list \<times> string"
  panicnil :: bool
  PanicNilError :: 'v

text \<open>
  The calls of these functions that an evaluation makes are logged, in order, with
  their arguments. For \<open>Run\<close> the flag says whether the frame of the interpreter
  is passed (otherwise nil).
\<close>

datatype 'n call =
    Ast string string bool
  | AstDot 'n string string
  | GtaRetry "'n list" string
  | Cfg 'n string
  | CfgDot 'n string
  | SetExec 'n
  | GenRun 'n
  | Run 'n bool
  | GenGlobalVars "'n list" string
  | GenValue 'n
  | GenFunctionWrapper 'n

text \<open>How the body of a function ends: it returns, or a panic leaves it.\<close>

datatype 'v flow = Returns | Panics "'v iface" "nat list" string


subsection \<open>Evaluation\<close>

text \<open>\<^verbatim>\<open>resizeFrame\<close> resizes the global frame of the interpreter.\<close>

definition resizeFrame ::
  "('v, 'n, 't, 'w) prims \<Rightarrow> ('v, 'n, 't, 'w) Interpreter \<Rightarrow> ('v, 'n, 't, 'w) Interpreter" where
  "resizeFrame P interp =
     (let l = length (types (universe interp)); b = length (fdata (frame interp)) in
      if int l - int b \<le> 0 then interp
      else interp\<lparr>frame := (frame interp)\<lparr>fdata := fdata (frame interp)
             @ map (\<lambda>t. Some (Zero P t)) (drop b (types (universe interp)))\<rparr>\<rparr>)"

text \<open>The method \<^verbatim>\<open>main\<close> of the interpreter: the node of main.main, if any.\<close>

definition interp_main :: "('v, 'n, 't, 'w) Interpreter \<Rightarrow> 'n option" where
  "interp_main interp =
     (case scopes interp mainID of
        None \<Rightarrow> None
      | Some m \<Rightarrow> (case sym m mainID of None \<Rightarrow> None | Some s \<Rightarrow> node s))"

text \<open>The loop \<^verbatim>\<open>for _, n := range initNodes { interp.run(n, interp.frame) }\<close>.\<close>

fun run_all ::
  "('v, 'n, 't, 'w) prims \<Rightarrow> ('v, 'n, 't, 'w) Interpreter \<Rightarrow> 'n call list \<Rightarrow> 'n list
   \<Rightarrow> ('v, unit) outcome \<times> ('v, 'n, 't, 'w) Interpreter \<times> 'n call list" where
  "run_all P interp tr [] = (Done (), interp, tr)"
| "run_all P interp tr (n # ns) =
     (case run P interp n True of
        (Panicked r pcs stk, interp') \<Rightarrow> (Panicked r pcs stk, interp', tr @ [Run n True])
      | (Done u, interp') \<Rightarrow> run_all P interp' (tr @ [Run n True]) ns)"

text \<open>
  The body of \<^verbatim>\<open>eval\<close> is given in parts, last part first. Each returns how
  the body ends, the named results \<^verbatim>\<open>res\<close> and \<^verbatim>\<open>err\<close> as they stand at
  that moment, the interpreter and the log of calls.

  Generation of the closures and execution: from \<^verbatim>\<open>genRun(root)\<close> to the end.
\<close>

definition eval_exec ::
  "('v, 'n, 't, 'w) prims \<Rightarrow> ('v, 'n, 't, 'w) Interpreter \<Rightarrow> 'n call list \<Rightarrow> 'n \<Rightarrow> string
   \<Rightarrow> 'n list
   \<Rightarrow> 'v flow \<times> 'v reflect_Value \<times> 'v error option \<times> ('v, 'n, 't, 'w) Interpreter \<times> 'n call list"
  where
  "eval_exec P interp tr root pkgName initNodes =
     (case genRun P interp root of
        (Panicked r pcs stk, interp) \<Rightarrow> (Panics r pcs stk, None, None, interp, tr @ [GenRun root])
      | (Done (Some e), interp) \<Rightarrow> (Returns, None, Some e, interp, tr @ [GenRun root])
      | (Done None, interp) \<Rightarrow>
          (let interp = interp\<lparr>frame := (frame interp)\<lparr>fid := runid interp\<rparr>\<rparr>;
               interp = resizeFrame P interp;
               tr = tr @ [GenRun root, Run root False] in
           case run P interp root False of
             (Panicked r pcs stk, interp) \<Rightarrow> (Panics r pcs stk, None, None, interp, tr)
           | (Done u, interp) \<Rightarrow>
               (let tr = tr @ [GenGlobalVars [root] pkgName] in
                case genGlobalVars P interp [root] (scopes interp pkgName) of
                  (Panicked r pcs stk, interp) \<Rightarrow> (Panics r pcs stk, None, None, interp, tr)
                | (Done (n, Some e), interp) \<Rightarrow> (Returns, None, Some e, interp, tr)
                | (Done (n, None), interp) \<Rightarrow>
                    (let tr = tr @ [Run n False] in
                     case run P interp n False of
                       (Panicked r pcs stk, interp) \<Rightarrow> (Panics r pcs stk, None, None, interp, tr)
                     | (Done u, interp) \<Rightarrow>
                         (case run_all P interp tr initNodes of
                            (Panicked r pcs stk, interp, tr) \<Rightarrow>
                              (Panics r pcs stk, None, None, interp, tr)
                          | (Done u, interp, tr) \<Rightarrow>
                              (let tr = tr @ [GenValue root] in
                               case genValue P interp root of
                                 (Panicked r pcs stk, interp) \<Rightarrow>
                                   (Panics r pcs stk, None, None, interp, tr)
                               | (Done res, interp) \<Rightarrow>
                                   (case res of
                                      None \<Rightarrow> (Returns, res, None, interp, tr)
                                    | Some x \<Rightarrow>
                                        (case asNode P x of
                                           None \<Rightarrow> (Returns, res, None, interp, tr)
                                         | Some n \<Rightarrow>
                                             (let tr = tr @ [GenFunctionWrapper n] in
                                              case genFunctionWrapper P interp n of
                                                (Panicked r pcs stk, interp) \<Rightarrow>
                                                  (Panics r pcs stk, res, None, interp, tr)
                                              | (Done res', interp) \<Rightarrow>
                                                  (Returns, res', None, interp, tr))))))))))"

text \<open>
  The package is made visible under a path identical to its name, unless the universe
  scope has a symbol of that name already. \<^term>\<open>None\<close> is the nil dereference of
  \<^verbatim>\<open>interp.scopes[pkgName].sym\<close> when the package has no scope. The Go code shares
  the symbol table of the scope with \<^verbatim>\<open>srcPkg\<close>; the model copies it.
\<close>

definition publishPkg ::
  "('v, 'n, 't, 'w) Interpreter \<Rightarrow> string \<Rightarrow> ('v, 'n, 't, 'w) Interpreter option" where
  "publishPkg interp pkgName =
     (if sym (universe interp) pkgName = None then
        (case scopes interp pkgName of
           None \<Rightarrow> None
         | Some sc \<Rightarrow>
             Some (interp\<lparr>srcPkg := (srcPkg interp)(pkgName \<mapsto> sym sc),
                          universe := (universe interp)\<lparr>sym := (sym (universe interp))(pkgName \<mapsto>
                            \<lparr>kind = pkgSym,
                             styp = Some \<lparr>cat = srcPkgT, tname = [], path = pkgName, untyped = False\<rparr>,
                             rval = None, builtin = None, node = None\<rparr>)\<rparr>,
                          pkgNames := (pkgNames interp)(pkgName \<mapsto> pkgName)\<rparr>))
      else Some interp)"

text \<open>
  The command of a dot dump: \<^verbatim>\<open>interp.dotCmd\<close>, or, when that is empty,
  \<^verbatim>\<open>defaultDotCmd(interp.name, prefix)\<close>.
\<close>

definition dotCmdOf ::
  "('v, 'n, 't, 'w) prims \<Rightarrow> ('v, 'n, 't, 'w) Interpreter \<Rightarrow> string \<Rightarrow> string" where
  "dotCmdOf P interp pre =
     (if dotCmd (opt interp) = [] then defaultDotCmd P (name interp) pre else dotCmd (opt interp))"

text \<open>
  From \<^verbatim>\<open>interp.cfgDot\<close> after the package is published to the end: the dump of the
  CFG, the return under \<^verbatim>\<open>noRun\<close>, and the execution.
\<close>

definition eval_dump_run ::
  "('v, 'n, 't, 'w) prims \<Rightarrow> ('v, 'n, 't, 'w) Interpreter \<Rightarrow> 'n call list \<Rightarrow> 'n \<Rightarrow> string
   \<Rightarrow> 'n list
   \<Rightarrow> 'v flow \<times> 'v reflect_Value \<times> 'v error option \<times> ('v, 'n, 't, 'w) Interpreter \<times> 'n call list"
  where
  "eval_dump_run P interp tr root pkgName initNodes =
     (if cfgDot (opt interp) then
        (let cmd = dotCmdOf P interp ''yaegi-cfg-'';
             tr = tr @ [CfgDot root cmd] in
         case node_cfgDot P interp root cmd of
           (Panicked r pcs stk, interp') \<Rightarrow> (Panics r pcs stk, None, None, interp', tr)
         | (Done u, interp') \<Rightarrow>
             (if noRun (opt interp') then (Returns, None, None, interp', tr)
              else eval_exec P interp' tr root pkgName initNodes))
      else if noRun (opt interp) then (Returns, None, None, interp, tr)
      else eval_exec P interp tr root pkgName initNodes)"

text \<open>
  The call \<^verbatim>\<open>setExec(root.start)\<close>, made when the root is not a file statement
  (the REPL may skip the package statement).
\<close>

definition step_setExec ::
  "('v, 'n, 't, 'w) prims \<Rightarrow> ('v, 'n, 't, 'w) Interpreter \<Rightarrow> 'n call list \<Rightarrow> 'n
   \<Rightarrow> ('v, unit) outcome \<times> ('v, 'n, 't, 'w) Interpreter \<times> 'n call list" where
  "step_setExec P interp tr root =
     (if \<not> isFileStmt P root
      then (case setExec P interp (start P root) of
              (o1, interp') \<Rightarrow> (o1, interp', tr @ [SetExec (start P root)]))
      else (Done (), interp, tr))"

text \<open>
  After a CFG built without error: main is added to the functions to run, the entry
  of the root gets its closures, the package is published, then the rest.
\<close>

definition eval_link ::
  "('v, 'n, 't, 'w) prims \<Rightarrow> ('v, 'n, 't, 'w) Interpreter \<Rightarrow> 'n call list \<Rightarrow> 'n \<Rightarrow> string
   \<Rightarrow> 'n list
   \<Rightarrow> 'v flow \<times> 'v reflect_Value \<times> 'v error option \<times> ('v, 'n, 't, 'w) Interpreter \<times> 'n call list"
  where
  "eval_link P interp tr root pkgName initNodes =
     (let initNodes = (case interp_main interp of
                         None \<Rightarrow> initNodes | Some m \<Rightarrow> initNodes @ [m]) in
      case step_setExec P interp tr root of
        (Panicked r pcs stk, interp', tr') \<Rightarrow> (Panics r pcs stk, None, None, interp', tr')
      | (Done u, interp', tr') \<Rightarrow>
          (case publishPkg interp' pkgName of
             None \<Rightarrow>
               (case runtimePanic P of
                  (r, pcs, stk) \<Rightarrow> (Panics r pcs stk, None, None, interp', tr'))
           | Some interp'' \<Rightarrow> eval_dump_run P interp'' tr' root pkgName initNodes))"

text \<open>From the construction of the CFG to the end.\<close>

definition eval_cfg ::
  "('v, 'n, 't, 'w) prims \<Rightarrow> ('v, 'n, 't, 'w) Interpreter \<Rightarrow> 'n call list \<Rightarrow> 'n \<Rightarrow> string
   \<Rightarrow> 'v flow \<times> 'v reflect_Value \<times> 'v error option \<times> ('v, 'n, 't, 'w) Interpreter \<times> 'n call list"
  where
  "eval_cfg P interp tr root pkgName =
     (let tr = tr @ [Cfg root pkgName] in
      case cfg P interp root pkgName of
        (Panicked r pcs stk, interp') \<Rightarrow> (Panics r pcs stk, None, None, interp', tr)
      | (Done (initNodes, Some e), interp') \<Rightarrow>
          (if cfgDot (opt interp') then
             (let cmd = dotCmdOf P interp' ''yaegi-cfg-'';
                  tr = tr @ [CfgDot root cmd] in
              case node_cfgDot P interp' root cmd of
                (Panicked r pcs stk, interp'') \<Rightarrow> (Panics r pcs stk, None, Some e, interp'', tr)
              | (Done u, interp'') \<Rightarrow> (Returns, None, Some e, interp'', tr))
           else (Returns, None, Some e, interp', tr))
      | (Done (initNodes, None), interp') \<Rightarrow> eval_link P interp' tr root pkgName initNodes)"

text \<open>From the global type analysis to the end.\<close>

definition eval_gta ::
  "('v, 'n, 't, 'w) prims \<Rightarrow> ('v, 'n, 't, 'w) Interpreter \<Rightarrow> 'n call list \<Rightarrow> 'n \<Rightarrow> string
   \<Rightarrow> 'v flow \<times> 'v reflect_Value \<times> 'v error option \<times> ('v, 'n, 't, 'w) Interpreter \<times> 'n call list"
  where
  "eval_gta P interp tr root pkgName =
     (let tr = tr @ [GtaRetry [root] pkgName] in
      case gtaRetry P interp [root] pkgName of
        (Panicked r pcs stk, interp') \<Rightarrow> (Panics r pcs stk, None, None, interp', tr)
      | (Done (Some e), interp') \<Rightarrow> (Returns, None, Some e, interp', tr)
      | (Done None, interp') \<Rightarrow> eval_cfg P interp' tr root pkgName)"

text \<open>
  The dump of the AST, made when \<^verbatim>\<open>astDot\<close> is set; the flag returned says
  whether \<^verbatim>\<open>eval\<close> returns after it, which it does under \<^verbatim>\<open>noRun\<close>.
\<close>

definition step_astDot ::
  "('v, 'n, 't, 'w) prims \<Rightarrow> ('v, 'n, 't, 'w) Interpreter \<Rightarrow> 'n call list \<Rightarrow> 'n
   \<Rightarrow> ('v, unit) outcome \<times> bool \<times> ('v, 'n, 't, 'w) Interpreter \<times> 'n call list" where
  "step_astDot P interp tr root =
     (if astDot (opt interp) then
        (let cmd = dotCmdOf P interp ''yaegi-ast-'' in
         case node_astDot P interp root cmd (name interp) of
           (o1, interp') \<Rightarrow>
             (o1, noRun (opt interp'), interp', tr @ [AstDot root cmd (name interp)]))
      else (Done (), False, interp, tr))"

text \<open>From the parse of the source to the end.\<close>

definition eval_ast ::
  "('v, 'n, 't, 'w) prims \<Rightarrow> ('v, 'n, 't, 'w) Interpreter \<Rightarrow> string \<Rightarrow> bool
   \<Rightarrow> 'v flow \<times> 'v reflect_Value \<times> 'v error option \<times> ('v, 'n, 't, 'w) Interpreter \<times> 'n call list"
  where
  "eval_ast P interp src inc =
     (let tr = [Ast src (name interp) inc] in
      case ast P interp src (name interp) inc of
        (Panicked r pcs stk, interp') \<Rightarrow> (Panics r pcs stk, None, None, interp', tr)
      | (Done (pkgName, root_opt, err), interp') \<Rightarrow>
          (case root_opt of
             None \<Rightarrow> (Returns, None, err, interp', tr)
           | Some root \<Rightarrow>
               (if err \<noteq> None then (Returns, None, err, interp', tr)
                else
                  (case step_astDot P interp' tr root of
                     (Panicked r pcs stk, ret, interp'', tr') \<Rightarrow>
                       (Panics r pcs stk, None, None, interp'', tr')
                   | (Done u, ret, interp'', tr') \<Rightarrow>
                       (if ret then (Returns, None, None, interp'', tr')
                        else eval_gta P interp'' tr' root pkgName)))))"


text \<open>The first lines of \<^verbatim>\<open>eval\<close> set the name of the source.\<close>

definition setName :: "('v, 'n, 't, 'w) Interpreter \<Rightarrow> string \<Rightarrow> ('v, 'n, 't, 'w) Interpreter" where
  "setName interp nm =
     (let interp = (if nm \<noteq> [] then interp\<lparr>name := nm\<rparr> else interp)
      in if name interp = [] then interp\<lparr>name := DefaultSourceName\<rparr> else interp)"

text \<open>The body of \<^verbatim>\<open>eval\<close>: the name of the source is set, then the rest.\<close>

definition eval_body ::
  "('v, 'n, 't, 'w) prims \<Rightarrow> ('v, 'n, 't, 'w) Interpreter \<Rightarrow> string \<Rightarrow> string \<Rightarrow> bool
   \<Rightarrow> 'v flow \<times> 'v reflect_Value \<times> 'v error option \<times> ('v, 'n, 't, 'w) Interpreter \<times> 'n call list"
  where
  "eval_body P interp src nm inc = eval_ast P (setName interp nm) src inc"

text \<open>
  What \<^verbatim>\<open>recover()\<close> returns in a deferred function for a panic with the value
  given: the value, but for \<^verbatim>\<open>panic(nil)\<close> nil or the error of the runtime,
  according to the runtime.
\<close>

definition recovered :: "('v, 'n, 't, 'w) prims \<Rightarrow> 'v iface \<Rightarrow> 'v iface" where
  "recovered P r =
     (case r of
        Some x \<Rightarrow> Some x
      | None \<Rightarrow> (if panicnil P then None else Some (PanicNilError P)))"

text \<open>
  \<^verbatim>\<open>eval\<close>: the body, and the deferred function. \<^verbatim>\<open>recover()\<close> returns the
  value of the panic, and nil when the body returned; \<^verbatim>\<open>err\<close> is set when that
  value is not nil. \<^verbatim>\<open>runtime.Callers\<close> fills an array of 64 addresses.
\<close>

definition eval ::
  "('v, 'n, 't, 'w) prims \<Rightarrow> ('v, 'n, 't, 'w) Interpreter \<Rightarrow> string \<Rightarrow> string \<Rightarrow> bool
   \<Rightarrow> 'v reflect_Value \<times> 'v error option \<times> ('v, 'n, 't, 'w) Interpreter \<times> 'n call list"
  where
  "eval P interp src nm inc =
     (case eval_body P interp src nm inc of
        (Returns, res, err, interp, tr) \<Rightarrow> (res, err, interp, tr)
      | (Panics p pcs stk, res, err, interp, tr) \<Rightarrow>
          (let r = recovered P p in
           if r \<noteq> None
           then (res, Some (PanicError \<lparr>Value = r, Callers = take 64 pcs, Stack = stk\<rparr>), interp, tr)
           else (res, err, interp, tr)))"

definition Eval ::
  "('v, 'n, 't, 'w) prims \<Rightarrow> ('v, 'n, 't, 'w) Interpreter \<Rightarrow> string
   \<Rightarrow> 'v reflect_Value \<times> 'v error option \<times> ('v, 'n, 't, 'w) Interpreter \<times> 'n call list"
  where
  "Eval P interp src = eval P interp src [] True"

text \<open>
  \<^verbatim>\<open>EvalPath\<close>: \<open>readFile\<close> is \<^verbatim>\<open>ioutil.ReadFile\<close>, which returns the
  content of the file or an error.
\<close>

definition EvalPath ::
  "('v, 'n, 't, 'w) prims \<Rightarrow> (string \<Rightarrow> 'v error + string) \<Rightarrow> ('v, 'n, 't, 'w) Interpreter
   \<Rightarrow> string
   \<Rightarrow> 'v reflect_Value \<times> 'v error option \<times> ('v, 'n, 't, 'w) Interpreter \<times> 'n call list"
  where
  "EvalPath P readFile interp pth =
     (case readFile pth of
        Inl err \<Rightarrow> (None, Some err, interp, [])
      | Inr b \<Rightarrow> eval P interp b pth False)"


subsection \<open>Evaluation with cancellation\<close>

text \<open>
  \<^verbatim>\<open>stop\<close> adds one to the run-id (\<^verbatim>\<open>atomic.AddUint64\<close>, which wraps) and
  closes the channel \<^verbatim>\<open>done\<close>. Closing a nil or a closed channel panics.
\<close>

definition stop :: "('v, 'n, 't, 'w) Interpreter \<Rightarrow> string + ('v, 'n, 't, 'w) Interpreter" where
  "stop interp =
     (let interp = interp\<lparr>interp_id := interp_id interp + 1\<rparr> in
      case done_ch interp of
        NilChan \<Rightarrow> Inl ''close of nil channel''
      | ClosedChan \<Rightarrow> Inl ''close of closed channel''
      | OpenChan \<Rightarrow> Inr (interp\<lparr>done_ch := ClosedChan\<rparr>))"

text \<open>
  \<^verbatim>\<open>EvalWithContext\<close> starts the evaluation in a goroutine and waits in a
  \<^verbatim>\<open>select\<close> for the first of two events: the context is done, or the evaluation
  has finished. Which of the two the \<^verbatim>\<open>select\<close> takes is the argument
  \<open>fired\<close>: \<^term>\<open>Some e\<close> when it takes \<^verbatim>\<open>ctx.Done()\<close>, \<open>e\<close> being what
  \<^verbatim>\<open>ctx.Err()\<close> then returns, and \<^term>\<open>None\<close> when it takes the end of the
  evaluation. In the first case the goroutine of the evaluation is left running; what
  it still does to the interpreter is not part of the state returned here. The result
  is \<^term>\<open>Inl\<close> for a panic that leaves the function.
\<close>

definition EvalWithContext ::
  "('v, 'n, 't, 'w) prims \<Rightarrow> ctx_error option \<Rightarrow> ('v, 'n, 't, 'w) Interpreter \<Rightarrow> string
   \<Rightarrow> string + (('v reflect_Value \<times> 'v error option) \<times> ('v, 'n, 't, 'w) Interpreter)" where
  "EvalWithContext P fired interp src =
     (let interp = interp\<lparr>done_ch := OpenChan, cancelChan := \<not> fastChan (opt interp)\<rparr> in
      case fired of
        Some e \<Rightarrow>
          (case stop interp of
             Inl p \<Rightarrow> Inl p
           | Inr interp \<Rightarrow> Inr ((None, Some (ContextError e)), interp))
      | None \<Rightarrow>
          (case Eval P interp src of
             (v, err, interp, tr) \<Rightarrow> Inr ((v, err), interp)))"

subsection \<open>Registration of binary packages\<close>

text \<open>
  An export map is given as the list of its entries, in the order in which
  \<^verbatim>\<open>range\<close> visits them (a Go map holds every key once, the order is not
  specified). \<open>Use_syms\<close> is the inner loop of \<^verbatim>\<open>Use\<close>, \<open>Use_loop\<close> the
  outer one; \<open>hooksPath\<close> is a constant declared in another file.
\<close>

fun Use_syms :: "(string \<rightharpoonup> 'v hostsym) \<Rightarrow> (string \<times> 'v hostsym) list \<Rightarrow> (string \<rightharpoonup> 'v hostsym)"
  where
  "Use_syms p [] = p"
| "Use_syms p ((s, x) # v) = Use_syms (p(s \<mapsto> x)) v"

fun Use_loop ::
  "string \<Rightarrow> ('v, 'n, 't, 'w) Interpreter \<Rightarrow> (string \<times> (string \<times> 'v hostsym) list) list
   \<Rightarrow> ('v, 'n, 't, 'w) Interpreter" where
  "Use_loop hooksPath interp [] = interp"
| "Use_loop hooksPath interp ((k, v) # vs) =
     (if k = hooksPath then Use_loop hooksPath (interp\<lparr>hooks := hooks interp @ [v]\<rparr>) vs
      else
        (let p = (case binPkg interp k of None \<Rightarrow> Map.empty | Some p \<Rightarrow> p) in
         Use_loop hooksPath (interp\<lparr>binPkg := (binPkg interp)(k \<mapsto> Use_syms p v)\<rparr>) vs))"

text \<open>
  \<open>redefine pkg names\<close> sets the listed symbols of a registered package to the
  interpreter's own definitions, and does nothing when the package is not registered.
\<close>

definition redefine :: "string \<Rightarrow> string list \<Rightarrow> 'v Exports \<Rightarrow> 'v Exports" where
  "redefine pkg names bp =
     (case bp pkg of
        None \<Rightarrow> bp
      | Some p \<Rightarrow> bp(pkg \<mapsto> fold (\<lambda>s q. q(s \<mapsto> Stdio pkg s)) names p))"

definition fixStdio :: "('v, 'n, 't, 'w) Interpreter \<Rightarrow> ('v, 'n, 't, 'w) Interpreter" where
  "fixStdio interp =
     (case binPkg interp ''fmt'' of
        None \<Rightarrow> interp
      | Some p \<Rightarrow>
          interp\<lparr>binPkg :=
            redefine ''os'' [''Stdin'', ''Stdout'', ''Stderr'']
              (redefine ''log'' [''Fatal'', ''Fatalf'', ''Fatalln'', ''Flags'', ''Output'',
                                 ''Panic'', ''Panicf'', ''Panicln'', ''Prefix'', ''Print'',
                                 ''Printf'', ''Println'', ''SetFlags'', ''SetOutput'',
                                 ''SetPrefix'', ''Writer'']
                (redefine ''flag'' [''CommandLine'']
                  (redefine ''fmt'' [''Print'', ''Printf'', ''Println'', ''Scan'', ''Scanf'',
                                     ''Scanln'']
                    (binPkg interp))))\<rparr>)"

definition Use ::
  "string \<Rightarrow> ('v, 'n, 't, 'w) Interpreter \<Rightarrow> (string \<times> (string \<times> 'v hostsym) list) list
   \<Rightarrow> ('v, 'n, 't, 'w) Interpreter" where
  "Use hooksPath interp values =
     (let interp = Use_loop hooksPath interp values in
      if ''fmt'' \<in> set (map fst values) then fixStdio interp else interp)"

text \<open>A symbol of the registry: package path, then name.\<close>

definition lookup :: "'v Exports \<Rightarrow> string \<Rightarrow> string \<Rightarrow> 'v hostsym option" where
  "lookup bp k s = (case bp k of None \<Rightarrow> None | Some p \<Rightarrow> p s)"

section \<open>The REPL\<close>

definition nl :: string where
  "nl = [CHR 0x0A]"

text \<open>
  \<^verbatim>\<open>getPrompt\<close> returns a function which prints a prompt only if input is a
  terminal. The function returned is modelled by the text it writes to the output;
  \<open>fmtv\<close> is the text \<^verbatim>\<open>fmt\<close> prints for a value.
\<close>

definition getPrompt :: "('v \<Rightarrow> string) \<Rightarrow> Reader \<Rightarrow> 'v reflect_Value \<Rightarrow> string" where
  "getPrompt fmtv inp =
     (case inp of
        NoStat \<Rightarrow> (\<lambda>v. [])
      | WithStat st tty \<Rightarrow>
          (case st of
             Inl err \<Rightarrow> (\<lambda>v. [])
           | Inr mode \<Rightarrow>
               (if mode AND ModeCharDevice \<noteq> 0
                then (\<lambda>v. (case v of None \<Rightarrow> [] | Some x \<Rightarrow> '': '' @ fmtv x @ nl) @ ''> '')
                else (\<lambda>v. []))))"

text \<open>\<^verbatim>\<open>fmt.Sprint\<close> of an interface value, and the method \<^verbatim>\<open>Error\<close> of an error.\<close>

definition Sprint :: "('v \<Rightarrow> string) \<Rightarrow> 'v iface \<Rightarrow> string" where
  "Sprint fmtv r = (case r of None \<Rightarrow> ''<nil>'' | Some x \<Rightarrow> fmtv x)"

definition error_Error :: "('v \<Rightarrow> string) \<Rightarrow> 'v error \<Rightarrow> string" where
  "error_Error fmtv err =
     (case err of
        ErrorList e \<Rightarrow>
          (case e of
             [] \<Rightarrow> ''no errors''
           | [e0] \<Rightarrow> scanner_Error_Error e0
           | e0 # es \<Rightarrow> scanner_Error_Error e0 @ '' (and '' @ Itoa (int (length es))
                         @ '' more errors)'')
      | PanicError p \<Rightarrow> Sprint fmtv (Value p)
      | ContextError Canceled \<Rightarrow> ''context canceled''
      | ContextError DeadlineExceeded \<Rightarrow> ''context deadline exceeded''
      | OtherError msg \<Rightarrow> msg)"

text \<open>
  The keys of a registry in the order in which \<^verbatim>\<open>range\<close> visits them. Go leaves
  the order open, so it is given by a list \<open>ks\<close>; of that list the loop visits the
  keys that are registered, each once. The list gives an order of the whole registry
  when it holds every registered key.
\<close>

definition visited :: "'v Exports \<Rightarrow> string list \<Rightarrow> string list" where
  "visited bp ks = filter (\<lambda>k. bp k \<noteq> None) (remdups ks)"

definition orders :: "string list \<Rightarrow> 'v Exports \<Rightarrow> bool" where
  "orders ks bp = (dom bp \<subseteq> set ks)"

text \<open>
  The loop at the entry of \<^verbatim>\<open>REPL\<close> that preimports the binary packages.
  \<open>identifier\<close> is \<^verbatim>\<open>identifier.FindString\<close>, of a regular expression declared
  in another file; the list holds the keys that the loop visits, in order.
\<close>

definition pkgSymbol :: "string \<Rightarrow> 'n symbol" where
  "pkgSymbol k = \<lparr>kind = pkgSym,
                  styp = Some \<lparr>cat = binPkgT, tname = [], path = k, untyped = False\<rparr>,
                  rval = None, builtin = None, node = None\<rparr>"

text \<open>The names that the loop skips: no name, or a name that is ambiguous.\<close>

definition skipName :: "string \<Rightarrow> bool" where
  "skipName nm =
     (nm = [] \<or> nm = ''rand'' \<or> nm = ''scanner'' \<or> nm = ''template'' \<or> nm = ''pprof'')"

fun preimport :: "(string \<Rightarrow> string) \<Rightarrow> ('n, 't) scope \<Rightarrow> string list \<Rightarrow> ('n, 't) scope" where
  "preimport identifier sc [] = sc"
| "preimport identifier sc (k # ks) =
     (let nm = identifier k in
      if skipName nm then preimport identifier sc ks
      else preimport identifier (sc\<lparr>sym := (sym sc)(nm \<mapsto> pkgSymbol k)\<rparr>) ks)"

text \<open>
  The variables of the loop of \<^verbatim>\<open>REPL\<close>: the interpreter, the source accumulated,
  the last value and error, the text written to the output and to the error stream,
  and the number of contexts created so far.
\<close>

record ('v, 'n, 't, 'w) repl =
  r_interp :: "('v, 'n, 't, 'w) Interpreter"
  r_src :: string
  r_v :: "'v reflect_Value"
  r_err :: "'v error option"
  r_out :: string
  r_errs :: string
  r_ctx :: nat

text \<open>The end of an iteration: a new context after a cancellation, the source is reset, the prompt.\<close>

definition REPL_finish ::
  "('v reflect_Value \<Rightarrow> string) \<Rightarrow> ('v, 'n, 't, 'w) repl \<Rightarrow> ('v, 'n, 't, 'w) repl" where
  "REPL_finish prompt st =
     (let st = (if r_err st = Some (ContextError Canceled) then st\<lparr>r_ctx := r_ctx st + 1\<rparr> else st)
      in st\<lparr>r_src := [], r_out := r_out st @ prompt (r_v st)\<rparr>)"

text \<open>
  One iteration of the loop, for a line received from the channel \<^verbatim>\<open>lines\<close>; the
  flag says whether the context is cancelled before the evaluation of that line ends
  (an interrupt). \<^term>\<open>Inl\<close> is a panic that leaves \<^verbatim>\<open>REPL\<close>.
\<close>

definition REPL_step ::
  "('v, 'n, 't, 'w) prims \<Rightarrow> ('v \<Rightarrow> string) \<Rightarrow> ('v reflect_Value \<Rightarrow> string)
   \<Rightarrow> ('v, 'n, 't, 'w) repl \<Rightarrow> string \<times> bool \<Rightarrow> string + ('v, 'n, 't, 'w) repl" where
  "REPL_step P fmtv prompt st ev =
     (case ev of (line, cancelled) \<Rightarrow>
        (let src = r_src st @ line @ nl in
         case EvalWithContext P (if cancelled then Some Canceled else None) (r_interp st) src of
           Inl p \<Rightarrow> Inl p
         | Inr ((v, err), interp) \<Rightarrow>
             (let st = st\<lparr>r_interp := interp, r_src := src, r_v := v, r_err := err\<rparr> in
              case err of
                None \<Rightarrow> Inr (REPL_finish prompt st)
              | Some (ErrorList e) \<Rightarrow>
                  (case e of
                     [] \<Rightarrow> Inl ''index out of range''
                   | e0 # es \<Rightarrow>
                       (if ignoreScannerError e0 line then Inr st
                        else Inr (REPL_finish prompt
                               (st\<lparr>r_errs := r_errs st
                                  @ TrimPrefix (scanner_Error_Error e0) (DefaultSourceName @ '':'')
                                  @ nl\<rparr>))))
              | Some (PanicError e) \<Rightarrow>
                  Inr (REPL_finish prompt
                         (st\<lparr>r_errs := r_errs st @ Sprint fmtv (Value e) @ nl @ Stack e @ nl\<rparr>))
              | Some e \<Rightarrow>
                  Inr (REPL_finish prompt (st\<lparr>r_errs := r_errs st @ error_Error fmtv e @ nl\<rparr>)))))"

fun REPL_loop ::
  "('v, 'n, 't, 'w) prims \<Rightarrow> ('v \<Rightarrow> string) \<Rightarrow> ('v reflect_Value \<Rightarrow> string)
   \<Rightarrow> ('v, 'n, 't, 'w) repl \<Rightarrow> (string \<times> bool) list \<Rightarrow> string + ('v, 'n, 't, 'w) repl" where
  "REPL_loop P fmtv prompt st [] = Inr st"
| "REPL_loop P fmtv prompt st (ev # evs) =
     (case REPL_step P fmtv prompt st ev of
        Inl p \<Rightarrow> Inl p
      | Inr st' \<Rightarrow> REPL_loop P fmtv prompt st' evs)"

text \<open>
  \<^verbatim>\<open>REPL\<close>: the packages of the registry are preimported, in the order that
  \<open>ks\<close> gives to its keys, the prompt is printed once, and the loop runs over the
  lines received until the input ends.
\<close>

definition REPL ::
  "('v, 'n, 't, 'w) prims \<Rightarrow> ('v \<Rightarrow> string) \<Rightarrow> (string \<Rightarrow> string) \<Rightarrow> string list
   \<Rightarrow> ('v, 'n, 't, 'w) Interpreter \<Rightarrow> (string \<times> bool) list \<Rightarrow> string + ('v, 'n, 't, 'w) repl"
  where
  "REPL P fmtv identifier ks interp events =
     (let interp = interp\<lparr>universe :=
                     preimport identifier (universe interp) (visited (binPkg interp) ks)\<rparr>;
          prompt = getPrompt fmtv (stdin (opt interp));
          st = \<lparr>r_interp = interp, r_src = [], r_v = None, r_err = None,
                r_out = prompt None, r_errs = [], r_ctx = 1\<rparr>
      in REPL_loop P fmtv prompt st events)"

section \<open>The command-line driver\<close>

text \<open>
  What a run of the driver does: the exit code of the process, the source handed to
  \<^verbatim>\<open>Eval\<close>, the lines printed, the message of \<^verbatim>\<open>log.Fatal\<close> (after its
  prefix), and whether the REPL was started.
\<close>

record run_result =
  exit_code :: int
  evaluated :: "string option"
  printed :: "string list"
  logged :: "string list"
  repl_started :: bool

text \<open>
  \<^verbatim>\<open>main\<close>: \<open>readFile\<close> is \<^verbatim>\<open>ioutil.ReadFile\<close> (\<^term>\<open>None\<close> is an error),
  \<open>Eval_err\<close> gives the text of the error that \<^verbatim>\<open>Eval\<close> returns for a source, if
  any, \<open>interactive\<close> is the flag \<^verbatim>\<open>-i\<close> and \<open>args\<close> are the arguments left after
  the flags. \<^verbatim>\<open>log.Fatal\<close> ends the process with code 1, a panic of the runtime
  (the slice \<^verbatim>\<open>s[:2]\<close> of a shorter string) with code 2, and the return of
  \<^verbatim>\<open>main\<close> with code 0.
\<close>

definition main ::
  "(string \<Rightarrow> string option) \<Rightarrow> (string \<Rightarrow> string option) \<Rightarrow> bool \<Rightarrow> string list \<Rightarrow> run_result" where
  "main readFile Eval_err interactive args =
     (case args of
        [] \<Rightarrow> \<lparr>exit_code = 0, evaluated = None, printed = [], logged = [], repl_started = True\<rparr>
      | a # as \<Rightarrow>
          (case readFile a of
             None \<Rightarrow> \<lparr>exit_code = 1, evaluated = None, printed = [],
                       logged = [''Could not read file: '' @ a], repl_started = False\<rparr>
           | Some b \<Rightarrow>
               (if length b < 2
                then \<lparr>exit_code = 2, evaluated = None, printed = [], logged = [],
                      repl_started = False\<rparr>
                else
                  (let s = (if take 2 b = ''#!'' then Replace1 b ''#!'' ''//'' else b) in
                   \<lparr>exit_code = 0, evaluated = Some s,
                    printed = (case Eval_err s of None \<Rightarrow> [] | Some e \<Rightarrow> [e]),
                    logged = [], repl_started = interactive\<rparr>))))"


section \<open>Parts of the package that are not in the source files\<close>

text \<open>
  Modelled from the spec: a channel send or receive of the executor, whose code is not
  in the source files. The spec says that channel operations are cancellable by
  default, implemented as a select between the user operation and the
  task-cancellation channel of the interpreter; that if the task-cancellation channel
  is closed first, the operation fails with a cancellation error; and that with the
  \<^verbatim>\<open>fast_chan\<close> option channel operations bypass the cancellation select and are
  uninterruptible. \<open>user\<close> is the value with which the user operation proceeds, if
  it can proceed at all; \<open>closed_first\<close> says that the select finds the
  task-cancellation channel closed before the user operation can proceed.
\<close>

datatype 'a chan_result = Proceeds 'a | CancelError | Blocks

definition chanOp :: "('v, 'n, 't, 'w) Interpreter \<Rightarrow> bool \<Rightarrow> 'a option \<Rightarrow> 'a chan_result" where
  "chanOp interp closed_first user =
     (if cancelChan interp \<and> closed_first \<and> done_ch interp = ClosedChan then CancelError
      else (case user of Some x \<Rightarrow> Proceeds x | None \<Rightarrow> Blocks))"

text \<open>
  Modelled from the spec: the treatment of a shebang line by the stage that builds the
  AST (\<^verbatim>\<open>interp.ast\<close>, whose code is not in the source files). The spec says that
  a leading \<^verbatim>\<open>#!\<close> on the first line of the input source is rewritten to a line
  comment prior to parsing. \<open>parse\<close> is the rest of the stage, the parser and the
  annotation of the tree.
\<close>

definition shebang :: "string \<Rightarrow> string" where
  "shebang src = (if HasPrefix src ''#!'' then ''//'' @ drop 2 src else src)"

definition ast_spec ::
  "(('v, 'n, 't, 'w) Interpreter \<Rightarrow> string \<Rightarrow> string \<Rightarrow> bool
      \<Rightarrow> ('v, string \<times> 'n option \<times> 'v error option) outcome \<times> ('v, 'n, 't, 'w) Interpreter)
   \<Rightarrow> ('v, 'n, 't, 'w) Interpreter \<Rightarrow> string \<Rightarrow> string \<Rightarrow> bool
   \<Rightarrow> ('v, string \<times> 'n option \<times> 'v error option) outcome \<times> ('v, 'n, 't, 'w) Interpreter"
  where
  "ast_spec parse interp src nm inc = parse interp (shebang src) nm inc"

section \<open>Predicates of the statements\<close>

text \<open>The log of calls of an evaluation, and the log of one of the parts of its body.\<close>

definition trace :: "'a \<times> 'b \<times> 'c \<times> 'n call list \<Rightarrow> 'n call list" where
  "trace r = snd (snd (snd r))"

definition calls :: "'f \<times> 'a \<times> 'b \<times> 'c \<times> 'n call list \<Rightarrow> 'n call list" where
  "calls r = snd (snd (snd (snd r)))"


text \<open>The calls that generate the closures of the nodes or execute nodes.\<close>

fun is_exec :: "'n call \<Rightarrow> bool" where
  "is_exec (GenRun n) = True"
| "is_exec (Run n f) = True"
| "is_exec (GenGlobalVars ns p) = True"
| "is_exec (GenValue n) = True"
| "is_exec (GenFunctionWrapper n) = True"
| "is_exec c = False"

text \<open>
  The input is a terminal. This is the flag of the stream, not a test that the code
  makes.
\<close>

fun is_terminal :: "Reader \<Rightarrow> bool" where
  "is_terminal (WithStat st tty) = tty"
| "is_terminal NoStat = False"

text \<open>
  The test of \<^verbatim>\<open>getPrompt\<close>: the stream has a method \<^verbatim>\<open>Stat\<close>, which
  succeeds, and the mode has the bit of a character device.
\<close>

fun char_device :: "Reader \<Rightarrow> bool" where
  "char_device (WithStat (Inr mode) tty) = (mode AND ModeCharDevice \<noteq> 0)"
| "char_device r = False"

text \<open>
  The iteration of the REPL goes on reading: the error of the evaluation is a list
  of scanner errors whose first error passes the test for incomplete input.
\<close>

fun waits :: "'v error option \<Rightarrow> string \<Rightarrow> bool" where
  "waits (Some (ErrorList (e0 # es))) line = ignoreScannerError e0 line"
| "waits err line = False"

text \<open>What \<^verbatim>\<open>eval\<close> returns and the interpreter it leaves, without the log of calls.\<close>

definition returned :: "'a \<times> 'b \<times> 'c \<times> 'd \<Rightarrow> 'a \<times> 'b \<times> 'c" where
  "returned r = (fst r, fst (snd r), fst (snd (snd r)))"

text \<open>How a part of the body of \<^verbatim>\<open>eval\<close> ends, without the log of calls.\<close>

definition ended :: "'f \<times> 'a \<times> 'b \<times> 'c \<times> 'd \<Rightarrow> 'f \<times> 'a \<times> 'b \<times> 'c" where
  "ended r = (fst r, fst (snd r), fst (snd (snd r)), fst (snd (snd (snd r))))"

text \<open>
  The symbols that \<^verbatim>\<open>fixStdio\<close> redefines in the package of the given path, and
  the test that it redefines the symbol \<open>s\<close> of the package \<open>k\<close> in a registry: the
  package \<^verbatim>\<open>fmt\<close> is registered, the package \<open>k\<close> is registered, and \<open>s\<close> is
  one of its symbols in the list.
\<close>

definition stdio_names :: "string \<Rightarrow> string list" where
  "stdio_names k =
     (if k = ''fmt'' then [''Print'', ''Printf'', ''Println'', ''Scan'', ''Scanf'', ''Scanln'']
      else if k = ''flag'' then [''CommandLine'']
      else if k = ''log'' then [''Fatal'', ''Fatalf'', ''Fatalln'', ''Flags'', ''Output'',
                                ''Panic'', ''Panicf'', ''Panicln'', ''Prefix'', ''Print'',
                                ''Printf'', ''Println'', ''SetFlags'', ''SetOutput'',
                                ''SetPrefix'', ''Writer'']
      else if k = ''os'' then [''Stdin'', ''Stdout'', ''Stderr'']
      else [])"

definition redefined :: "'v Exports \<Rightarrow> string \<Rightarrow> string \<Rightarrow> bool" where
  "redefined bp k s = (bp ''fmt'' \<noteq> None \<and> bp k \<noteq> None \<and> s \<in> set (stdio_names k))"

text \<open>
  The options of the interpreter are set by \<^verbatim>\<open>New\<close> only: no stage of an
  evaluation changes them.
\<close>

definition opt_kept :: "('v, 'n, 't, 'w) prims \<Rightarrow> bool" where
  "opt_kept P =
     ((\<forall>i a b c. opt (snd (ast P i a b c)) = opt i) \<and>
      (\<forall>i a b c. opt (snd (node_astDot P i a b c)) = opt i) \<and>
      (\<forall>i a b. opt (snd (gtaRetry P i a b)) = opt i) \<and>
      (\<forall>i a b. opt (snd (cfg P i a b)) = opt i) \<and>
      (\<forall>i a b. opt (snd (node_cfgDot P i a b)) = opt i) \<and>
      (\<forall>i a. opt (snd (setExec P i a)) = opt i))"

section \<open>Sample inputs\<close>

text \<open>
  Concrete inputs on which the model is evaluated: an environment given by its
  variables, options that leave everything to the defaults, and stages over natural
  numbers. With \<open>stages_ok\<close> every stage succeeds: the parser returns the node 0 of
  package main, the global type analysis creates the scope of the package, and the
  value of the source is 3; the runtime is one that replaces the nil of
  \<^verbatim>\<open>panic(nil)\<close>.
\<close>

definition env_of :: "(string \<times> string) list \<Rightarrow> Reader \<Rightarrow> os" where
  "env_of vars inp =
     \<lparr>Getenv = (\<lambda>k. case map_of vars k of None \<Rightarrow> [] | Some x \<Rightarrow> x),
      os_Stdin = inp, os_Stdout = Writer 1, os_Stderr = Writer 2, Default_BuildTags = []\<rparr>"

definition options0 :: Options where
  "options0 = \<lparr>GoPath = [], Options_BuildTags = [], Stdin = None, Stdout = None, Stderr = None\<rparr>"

definition stages_ok :: "(nat, nat, nat, unit) prims" where
  "stages_ok =
     \<lparr>ast = (\<lambda>i src nm inc. (Done (''main'', Some 0, None), i)),
      defaultDotCmd = (\<lambda>nm pre. ''dot''),
      node_astDot = (\<lambda>i n cmd nm. (Done (), i)),
      gtaRetry = (\<lambda>i ns p.
         (Done None, i\<lparr>scopes := (scopes i)(p \<mapsto> \<lparr>global = False, sym = Map.empty, types = []\<rparr>)\<rparr>)),
      cfg = (\<lambda>i n p. (Done ([], None), i)),
      node_cfgDot = (\<lambda>i n cmd. (Done (), i)),
      isFileStmt = (\<lambda>n. False),
      start = (\<lambda>n. n),
      setExec = (\<lambda>i n. (Done (), i)),
      genRun = (\<lambda>i n. (Done None, i)),
      Zero = (\<lambda>t. 0),
      run = (\<lambda>i n f. (Done (), i)),
      genGlobalVars = (\<lambda>i ns sc. (Done (1, None), i)),
      genValue = (\<lambda>i n. (Done (Some 3), i)),
      asNode = (\<lambda>v. None),
      genFunctionWrapper = (\<lambda>i n. (Done None, i)),
      runtimePanic = (Some 0, [], []),
      panicnil = False,
      PanicNilError = 99\<rparr>"

text \<open>
  A parser that takes a source for a file with its package statement when it starts
  with a comment or with the word \<^verbatim>\<open>package\<close>, and reports an error otherwise;
  and the sample stages with that parser behind the treatment of the shebang line.
\<close>

definition parse0 ::
  "(nat, nat, nat, unit) Interpreter \<Rightarrow> string \<Rightarrow> string \<Rightarrow> bool
   \<Rightarrow> (nat, string \<times> nat option \<times> nat error option) outcome \<times> (nat, nat, nat, unit) Interpreter"
  where
  "parse0 i src nm inc =
     (if HasPrefix src ''//'' \<or> HasPrefix src ''package''
      then (Done (''main'', Some 0, None), i)
      else (Done ([], None, Some (ErrorList
              [\<lparr>Pos = \<lparr>Filename = nm, Offset = 0, Line = 1, Column = 1\<rparr>,
                Msg = ''illegal character''\<rparr>])), i))"

definition stages_script :: "(nat, nat, nat, unit) prims" where
  "stages_script = stages_ok\<lparr>ast := ast_spec parse0\<rparr>"

text \<open>The same stages, but the execution panics with the value given.\<close>

definition stages_panic :: "nat iface \<Rightarrow> (nat, nat, nat, unit) prims" where
  "stages_panic r = stages_ok\<lparr>run := (\<lambda>i n f. (Panicked r [1, 2] ''goroutine 1'', i))\<rparr>"

text \<open>The same again, under a runtime where \<^verbatim>\<open>panic(nil)\<close> keeps the value nil.\<close>

definition stages_panicnil :: "nat iface \<Rightarrow> (nat, nat, nat, unit) prims" where
  "stages_panicnil r = (stages_panic r)\<lparr>panicnil := True\<rparr>"

text \<open>
  Three input streams: a terminal, the device \<^verbatim>\<open>/dev/null\<close>, which is a character
  device and no terminal, and a regular file.
\<close>

definition terminal :: Reader where
  "terminal = WithStat (Inr ModeCharDevice) True"

definition dev_null :: Reader where
  "dev_null = WithStat (Inr ModeCharDevice) False"

definition regular_file :: Reader where
  "regular_file = WithStat (Inr 0) False"

text \<open>The same stages, but the parser reports one error with the message given.\<close>

definition stages_syntax :: "string \<Rightarrow> (nat, nat, nat, unit) prims" where
  "stages_syntax msg = stages_ok\<lparr>ast := (\<lambda>i src nm inc.
     (Done ([], None, Some (ErrorList
        [\<lparr>Pos = \<lparr>Filename = ''_.go'', Offset = 10, Line = 1, Column = 11\<rparr>, Msg = msg\<rparr>])), i))\<rparr>"

definition interp0 :: "(string \<times> string) list \<Rightarrow> Reader \<Rightarrow> (nat, nat, nat, unit) Interpreter" where
  "interp0 vars inp = New (env_of vars inp) () options0"

definition fmt_nat :: "nat \<Rightarrow> string" where
  "fmt_nat n = Itoa (int n)"

definition base_name :: "string \<Rightarrow> string" where
  "base_name k = rev (takeWhile (\<lambda>c. c \<noteq> CHR ''/'') (rev k))"

definition no_file :: "string \<Rightarrow> string option" where
  "no_file pth = None"

definition one_file :: "string \<Rightarrow> string \<Rightarrow> string option" where
  "one_file content pth = Some content"

definition eval_fails :: "string \<Rightarrow> string option" where
  "eval_fails src = Some ''1:1: undefined: x''"

definition eval_succeeds :: "string \<Rightarrow> string option" where
  "eval_succeeds src = None"

definition read_script :: "string \<Rightarrow> nat error + string" where
  "read_script pth = Inr ''#!/usr/bin/env yaegi''"

text \<open>The variables of the loop of the REPL at its entry, for the sample interpreter.\<close>

definition repl0 :: "(string \<times> string) list \<Rightarrow> Reader \<Rightarrow> (nat, nat, nat, unit) repl" where
  "repl0 vars inp = \<lparr>r_interp = interp0 vars inp, r_src = [], r_v = None, r_err = None,
                     r_out = [], r_errs = [], r_ctx = 1\<rparr>"

text \<open>Two export maps, and the path of the hooks as the package declares it.\<close>

definition hooksPath0 :: string where
  "hooksPath0 = ''github.com/containous/yaegi''"

definition exports_os :: "(string \<times> (string \<times> nat hostsym) list) list" where
  "exports_os = [(''os'', [(''Stdin'', Export 1), (''Args'', Export 2)])]"

definition exports_fmt :: "(string \<times> (string \<times> nat hostsym) list) list" where
  "exports_fmt = [(''fmt'', [(''Println'', Export 3), (''Sprint'', Export 4)])]"

definition exports_x :: "(string \<times> (string \<times> nat hostsym) list) list" where
  "exports_x = [(''a/x'', [(''F'', Export 5)]), (''b/x'', [(''G'', Export 6)])]"


section \<open>Incomplete input in the REPL\<close>

text \<open>
  C1. \<^verbatim>\<open>ignoreScannerError\<close> returns true exactly when the message of the error
  ends with \<^verbatim>\<open>found 'EOF'\<close>, is \<^verbatim>\<open>raw string literal not terminated\<close>, or
  starts with \<^verbatim>\<open>expected operand, found '}'\<close> while the line does not end with a
  closing brace. When the evaluation of the source accumulated so far returns a list
  of scanner errors, the iteration of the REPL depends on the first error and on the
  line just read: if the test holds the REPL goes on reading, with the line added to
  the source and nothing printed; otherwise it prints the error to the error stream,
  without the prefix \<^verbatim>\<open>_.go:\<close>, resets the source and prints the prompt.
\<close>

theorem incomplete_input_continues:
  "(ignoreScannerError e s \<longleftrightarrow>
      (HasSuffix (Msg e) found_EOF \<or> Msg e = raw_not_terminated \<or>
       (HasPrefix (Msg e) expected_operand \<and> \<not> HasSuffix s ''}''))) \<and>
   (EvalWithContext P (if cancelled then Some Canceled else None) (r_interp st)
        (r_src st @ line @ nl) = Inr ((v, Some (ErrorList (e0 # es))), interp') \<longrightarrow>
    (\<exists>st'. REPL_step P fmtv prompt st (line, cancelled) = Inr st' \<and>
       (if ignoreScannerError e0 line
        then r_src st' = r_src st @ line @ nl \<and> r_errs st' = r_errs st \<and> r_out st' = r_out st
        else r_src st' = [] \<and>
             r_errs st' = r_errs st @ TrimPrefix (scanner_Error_Error e0) ''_.go:'' @ nl \<and>
             r_out st' = r_out st @ prompt v)))"
  by (simp add: ignoreScannerError_def REPL_step_def REPL_finish_def Let_def DefaultSourceName_def)

text \<open>The sample parser of \<open>stages_syntax\<close> makes the evaluation return its error.\<close>

lemma sample_syntax_eval:
  "\<exists>i'. EvalWithContext (stages_syntax msg) None (interp0 vars inp) src =
     Inr ((None, Some (ErrorList
        [\<lparr>Pos = \<lparr>Filename = ''_.go'', Offset = 10, Line = 1, Column = 11\<rparr>, Msg = msg\<rparr>])), i')"
  by (simp add: EvalWithContext_def Eval_def eval_def eval_body_def setName_def eval_ast_def
        Let_def stages_syntax_def stages_ok_def interp0_def New_def)

text \<open>
  On the sample interpreter: the open function body of the first line is incomplete
  input and is kept; the error of the second source is reported.
\<close>

theorem incomplete_input_continues_witness:
  "ignoreScannerError \<lparr>Pos = \<lparr>Filename = ''_.go'', Offset = 10, Line = 1, Column = 11\<rparr>,
                        Msg = found_EOF\<rparr> ''func f() {'' \<and>
   (\<exists>st'. REPL_step (stages_syntax found_EOF) fmt_nat (getPrompt fmt_nat NoStat) (repl0 [] NoStat)
             (''func f() {'', False) = Inr st' \<and>
          r_src st' = ''func f() {'' @ nl \<and> r_errs st' = [] \<and> r_out st' = []) \<and>
   (\<exists>st'. REPL_step (stages_syntax ''expected declaration'') fmt_nat (getPrompt fmt_nat NoStat)
             (repl0 [] NoStat) (''x y'', False) = Inr st' \<and>
          r_src st' = [] \<and> r_errs st' = ''1:11: expected declaration'' @ nl \<and> r_out st' = [])"
proof -
  let ?e = "\<lambda>m. \<lparr>Pos = \<lparr>Filename = ''_.go'', Offset = 10, Line = 1, Column = 11\<rparr>, Msg = m\<rparr>"
  obtain i1 where h1: "EvalWithContext (stages_syntax found_EOF) None (interp0 [] NoStat)
      (''func f() {'' @ nl) = Inr ((None, Some (ErrorList [?e found_EOF])), i1)"
    using sample_syntax_eval by blast
  obtain i2 where h2: "EvalWithContext (stages_syntax ''expected declaration'') None
      (interp0 [] NoStat) (''x y'' @ nl) = Inr ((None, Some (ErrorList [?e ''expected declaration''])), i2)"
    using sample_syntax_eval by blast
  have ig: "ignoreScannerError (?e found_EOF) ''func f() {''"
    using incomplete_input_continues [where e = "?e found_EOF" and s = "''func f() {''", THEN conjunct1]
    by (simp add: found_EOF_def HasSuffix_def)
  have nig: "\<not> ignoreScannerError (?e ''expected declaration'') ''x y''"
    by (simp add: ignoreScannerError_def found_EOF_def HasSuffix_def HasPrefix_def
          raw_not_terminated_def expected_operand_def)
  have rendered: "TrimPrefix (scanner_Error_Error (?e ''expected declaration'')) ''_.go:''
               = ''1:11: expected declaration''"
    by (simp add: TrimPrefix_def HasPrefix_def scanner_Error_Error_def Position_String_def
          Position_IsValid_def Itoa_def Let_def)
  from incomplete_input_continues [where P = "stages_syntax found_EOF"
      and cancelled = False and st = "repl0 [] NoStat" and line = "''func f() {''" and v = None
      and ?e0.0 = "?e found_EOF" and es = "[]" and interp' = i1 and fmtv = fmt_nat
      and prompt = "getPrompt fmt_nat NoStat", THEN conjunct2] h1 ig
  have a: "\<exists>st'. REPL_step (stages_syntax found_EOF) fmt_nat (getPrompt fmt_nat NoStat) (repl0 [] NoStat)
             (''func f() {'', False) = Inr st' \<and>
          r_src st' = ''func f() {'' @ nl \<and> r_errs st' = [] \<and> r_out st' = []"
    by (simp add: repl0_def)
  from incomplete_input_continues [where P = "stages_syntax ''expected declaration''"
      and cancelled = False and st = "repl0 [] NoStat" and line = "''x y''" and v = None
      and ?e0.0 = "?e ''expected declaration''" and es = "[]" and interp' = i2 and fmtv = fmt_nat
      and prompt = "getPrompt fmt_nat NoStat", THEN conjunct2] h2 nig rendered
  have b: "\<exists>st'. REPL_step (stages_syntax ''expected declaration'') fmt_nat (getPrompt fmt_nat NoStat)
             (repl0 [] NoStat) (''x y'', False) = Inr st' \<and>
          r_src st' = [] \<and> r_errs st' = ''1:11: expected declaration'' @ nl \<and> r_out st' = []"
    by (simp add: repl0_def getPrompt_def)
  from ig a b show ?thesis by blast
qed

section \<open>Cancellation\<close>

text \<open>
  C2. When the \<^verbatim>\<open>select\<close> of \<^verbatim>\<open>EvalWithContext\<close> takes the case of the
  context, that is when the cancellation fires before the evaluation has finished,
  the function does not panic, it adds one to the run-id of the interpreter
  (modulo \<open>2^64\<close>), closes the channel \<^verbatim>\<open>done\<close> it has just made, and returns the
  zero Value with the error of the context, which is not a \<^verbatim>\<open>Panic\<close>.
\<close>

theorem cancellation_stops:
  "EvalWithContext P (Some ce) interp src =
     Inr ((None, Some (ContextError ce)),
          interp\<lparr>done_ch := ClosedChan, cancelChan := \<not> fastChan (opt interp),
                 interp_id := interp_id interp + 1\<rparr>) \<and>
   (\<forall>p. ContextError ce \<noteq> PanicError p)"
  by (simp add: EvalWithContext_def stop_def Let_def)

text \<open>
  On the sample interpreter, whose run-id is 0 at creation: an evaluation cancelled
  before it ends leaves the run-id 1 and the channel closed, and returns the error
  of the cancellation.
\<close>

theorem cancellation_stops_witness:
  "fst (projr (EvalWithContext stages_ok (Some Canceled) (interp0 [] NoStat) ''for {}'')) =
     (None, Some (ContextError Canceled)) \<and>
   interp_id (snd (projr (EvalWithContext stages_ok (Some Canceled) (interp0 [] NoStat) ''for {}''))) = 1 \<and>
   done_ch (snd (projr (EvalWithContext stages_ok (Some Canceled) (interp0 [] NoStat) ''for {}'')))
     = ClosedChan"
  using cancellation_stops [where P = stages_ok and ce = Canceled
      and interp = "interp0 [] NoStat" and src = "''for {}''", THEN conjunct1]
  by (simp add: interp0_def New_def)

section \<open>Panics\<close>

text \<open>The fields of the sample interpreter, and the symbols of the universe scope.\<close>

lemma interp0_fields:
  "name (interp0 vars inp) = []"
  "opt (interp0 vars inp) =
     \<lparr>astDot = fst (ParseBool (Getenv (env_of vars inp) ''YAEGI_AST_DOT'')),
      cfgDot = fst (ParseBool (Getenv (env_of vars inp) ''YAEGI_CFG_DOT'')),
      dotCmd = Getenv (env_of vars inp) ''YAEGI_DOT_CMD'',
      noRun = fst (ParseBool (Getenv (env_of vars inp) ''YAEGI_NO_RUN'')),
      fastChan = fst (ParseBool (Getenv (env_of vars inp) ''YAEGI_FAST_CHAN'')),
      GOPATH = [], BuildTags = [], stdin = inp, stdout = Writer 1, stderr = Writer 2\<rparr>"
  "universe (interp0 vars inp) = initUniverse"
  "scopes (interp0 vars inp) = Map.empty"
  "frame (interp0 vars inp) = \<lparr>fid = 0, fdata = []\<rparr>"
  "interp_id (interp0 vars inp) = 0"
  "cancelChan (interp0 vars inp) = False"
  "binPkg (interp0 vars inp) = [[] \<mapsto> [''_error'' \<mapsto> Wrapper_error]]"
  by (simp_all add: interp0_def New_def env_of_def options0_def)

lemma initUniverse_main: "sym initUniverse ''main'' = None" "types initUniverse = []"
  by (simp_all add: initUniverse_def)

lemma Getenv_env_of: "Getenv (env_of vars inp) k = (case map_of vars k of None \<Rightarrow> [] | Some x \<Rightarrow> x)"
  by (simp add: env_of_def)

lemmas sample_eval_defs =
  eval_body_def setName_def eval_ast_def step_astDot_def eval_gta_def eval_cfg_def
  eval_link_def step_setExec_def eval_dump_run_def dotCmdOf_def eval_exec_def
  publishPkg_def interp_main_def resizeFrame_def runid_def Let_def
  stages_ok_def interp0_fields initUniverse_main Getenv_env_of ParseBool_def
  mainID_def DefaultSourceName_def

text \<open>
  What \<^verbatim>\<open>eval\<close> makes of a panic that leaves its body: with the result as it
  stood, a \<^verbatim>\<open>Panic\<close> error that carries the recovered value, the addresses of
  the call stack (at most 64) and the stack buffer, unless the recovered value is
  nil; then the error is left as it stood.
\<close>

lemma eval_recovers:
  "eval_body P interp src nm inc = (Panics p pcs stk, res, err, interp', tr) \<Longrightarrow>
     eval P interp src nm inc =
       (res,
        (case recovered P p of
           None \<Rightarrow> err
         | Some x \<Rightarrow> Some (PanicError \<lparr>Value = Some x, Callers = take 64 pcs, Stack = stk\<rparr>)),
        interp', tr)"
  by (auto simp: eval_def Let_def split: option.splits)

text \<open>On the sample interpreter, the body of \<^verbatim>\<open>eval\<close> is left by the panic of the execution.\<close>

lemma sample_panic_body:
  "\<exists>i' tr. eval_body (stages_panic r) (interp0 [] inp) src [] True =
     (Panics r [1, 2] ''goroutine 1'', None, None, i', tr)"
  by (simp add: sample_eval_defs stages_panic_def)

lemma sample_panicnil_body:
  "\<exists>i' tr. eval_body (stages_panicnil r) (interp0 [] inp) src [] True =
     (Panics r [1, 2] ''goroutine 1'', None, None, i', tr)"
  by (simp add: sample_eval_defs stages_panicnil_def stages_panic_def)

text \<open>
  C3. The claim is that an execution that panics makes \<^verbatim>\<open>Eval\<close> return a
  \<^verbatim>\<open>Panic\<close> error with the value of the panic, the addresses of the call stack
  and the stack buffer. The code does so for a panic whose value is not nil, and
  for \<^verbatim>\<open>panic(nil)\<close> under a runtime that replaces the nil. Under a runtime where
  \<^verbatim>\<open>panic(nil)\<close> keeps the value nil, the body of \<^verbatim>\<open>eval\<close> is left by the
  panic, \<^verbatim>\<open>recover()\<close> returns nil, the test \<^verbatim>\<open>r != nil\<close> fails and
  \<^verbatim>\<open>Eval\<close> returns no error at all, against the claim and against the comment
  of \<^verbatim>\<open>Eval\<close> (a non nil error in case of failure). The four evaluations below
  are on the sample interpreter, the execution panicking with nil or with 7.
\<close>

theorem nil_panic_escapes:
  "fst (eval_body (stages_panicnil None) (interp0 [] NoStat) ''f()'' [] True) =
     Panics None [1, 2] ''goroutine 1'' \<and>
   fst (snd (Eval (stages_panicnil None) (interp0 [] NoStat) ''f()'')) = None \<and>
   fst (snd (Eval (stages_panicnil (Some 7)) (interp0 [] NoStat) ''f()'')) =
     Some (PanicError \<lparr>Value = Some 7, Callers = [1, 2], Stack = ''goroutine 1''\<rparr>) \<and>
   fst (snd (Eval (stages_panic None) (interp0 [] NoStat) ''f()'')) =
     Some (PanicError \<lparr>Value = Some 99, Callers = [1, 2], Stack = ''goroutine 1''\<rparr>)"
proof -
  obtain i1 t1 where b1: "eval_body (stages_panicnil None) (interp0 [] NoStat) ''f()'' [] True =
     (Panics None [1, 2] ''goroutine 1'', None, None, i1, t1)"
    using sample_panicnil_body by blast
  obtain i2 t2 where b2: "eval_body (stages_panicnil (Some 7)) (interp0 [] NoStat) ''f()'' [] True =
     (Panics (Some 7) [1, 2] ''goroutine 1'', None, None, i2, t2)"
    using sample_panicnil_body by blast
  obtain i3 t3 where b3: "eval_body (stages_panic None) (interp0 [] NoStat) ''f()'' [] True =
     (Panics None [1, 2] ''goroutine 1'', None, None, i3, t3)"
    using sample_panic_body by blast
  from eval_recovers [OF b1] eval_recovers [OF b2] eval_recovers [OF b3] b1
  show ?thesis
    by (simp add: Eval_def recovered_def stages_panicnil_def stages_panic_def stages_ok_def)
qed

section \<open>Channel operations and cancellation\<close>

text \<open>
  C4. \<^verbatim>\<open>New\<close> reads the option \<^verbatim>\<open>fastChan\<close> as a boolean from the variable
  \<^verbatim>\<open>YAEGI_FAST_CHAN\<close> of the environment and leaves \<^verbatim>\<open>cancelChan\<close> false.
  \<^verbatim>\<open>EvalWithContext\<close> sets \<^verbatim>\<open>cancelChan\<close> to the negation of the option before
  the evaluation starts, on a fresh open channel \<^verbatim>\<open>done\<close>; while that channel is
  open a channel operation proceeds or blocks as the user operation does. After a
  cancellation the channel is closed and \<^verbatim>\<open>cancelChan\<close> is still the negation of
  the option: with the option set a channel operation bypasses the cancellation
  select, it never fails with a cancellation error; with the option unset it fails
  with a cancellation error when it finds the channel closed first.
\<close>

theorem fast_chan_disables_cancel:
  "fastChan (opt (New env w options :: ('v, 'n, 't, 'w) Interpreter)) =
     fst (ParseBool (Getenv env ''YAEGI_FAST_CHAN'')) \<and>
   cancelChan (New env w options :: ('v, 'n, 't, 'w) Interpreter) = False \<and>
   EvalWithContext P None interp src =
     (case Eval P (interp\<lparr>done_ch := OpenChan, cancelChan := \<not> fastChan (opt interp)\<rparr>) src of
        (v, err, interp', tr) \<Rightarrow> Inr ((v, err), interp')) \<and>
   chanOp (interp\<lparr>done_ch := OpenChan, cancelChan := \<not> fastChan (opt interp)\<rparr>) cf user =
     (case user of Some x \<Rightarrow> Proceeds x | None \<Rightarrow> Blocks) \<and>
   (\<exists>r interp'. EvalWithContext P (Some e) interp src = Inr (r, interp') \<and>
      cancelChan interp' = (\<not> fastChan (opt interp)) \<and>
      chanOp interp' cf user =
        (if \<not> fastChan (opt interp) \<and> cf then CancelError
         else (case user of Some x \<Rightarrow> Proceeds x | None \<Rightarrow> Blocks)))"
  by (simp add: New_def EvalWithContext_def stop_def chanOp_def Let_def)

text \<open>The sample stages evaluate a source to the value 3 and leave \<^verbatim>\<open>cancelChan\<close> set.\<close>

lemma sample_ok_eval:
  "\<exists>i'. EvalWithContext stages_ok None (interp0 [] inp) src = Inr ((Some 3, None), i') \<and>
        cancelChan i' = True"
  by (simp add: EvalWithContext_def Eval_def eval_def sample_eval_defs)

text \<open>
  On the sample interpreter, a receive on a channel that nobody sends on, after a
  cancellation: with \<^verbatim>\<open>YAEGI_FAST_CHAN=1\<close> the option is set and the receive stays
  blocked; without the variable it fails with the cancellation error.
\<close>

theorem fast_chan_disables_cancel_witness:
  "fastChan (opt (interp0 [(''YAEGI_FAST_CHAN'', ''1'')] NoStat)) \<and>
   chanOp (snd (projr (EvalWithContext stages_ok (Some Canceled)
             (interp0 [(''YAEGI_FAST_CHAN'', ''1'')] NoStat) ''<-c''))) True (None :: nat option)
     = Blocks \<and>
   chanOp (snd (projr (EvalWithContext stages_ok (Some Canceled)
             (interp0 [] NoStat) ''<-c''))) True (None :: nat option)
     = CancelError"
proof -
  let ?f = "interp0 [(''YAEGI_FAST_CHAN'', ''1'')] NoStat"
  let ?n = "interp0 [] NoStat"
  have a: "fastChan (opt ?f)"
    using fast_chan_disables_cancel [where env = "env_of [(''YAEGI_FAST_CHAN'', ''1'')] NoStat"
        and w = "()" and options = options0, THEN conjunct1]
    by (simp add: interp0_def Getenv_env_of ParseBool_def)
  have n: "\<not> fastChan (opt ?n)"
    by (simp add: interp0_fields Getenv_env_of ParseBool_def)
  obtain r1 i1 where b: "EvalWithContext stages_ok (Some Canceled) ?f ''<-c'' = Inr (r1, i1)"
      "chanOp i1 True (None :: nat option) =
         (if \<not> fastChan (opt ?f) \<and> True then CancelError
          else (case (None :: nat option) of Some x \<Rightarrow> Proceeds x | None \<Rightarrow> Blocks))"
    using fast_chan_disables_cancel [where P = stages_ok and e = Canceled and interp = ?f
        and src = "''<-c''" and cf = True and user = "None :: nat option",
        THEN conjunct2, THEN conjunct2, THEN conjunct2, THEN conjunct2]
    by blast
  obtain r2 i2 where c: "EvalWithContext stages_ok (Some Canceled) ?n ''<-c'' = Inr (r2, i2)"
      "chanOp i2 True (None :: nat option) =
         (if \<not> fastChan (opt ?n) \<and> True then CancelError
          else (case (None :: nat option) of Some x \<Rightarrow> Proceeds x | None \<Rightarrow> Blocks))"
    using fast_chan_disables_cancel [where P = stages_ok and e = Canceled and interp = ?n
        and src = "''<-c''" and cf = True and user = "None :: nat option",
        THEN conjunct2, THEN conjunct2, THEN conjunct2, THEN conjunct2]
    by blast
  from a n b c show ?thesis by simp
qed

text \<open>
  A variable \<^verbatim>\<open>FAST_CHAN\<close> is not read: with \<^verbatim>\<open>FAST_CHAN=1\<close> in the
  environment the option is not set, and after a cancellation a blocked receive fails
  with the cancellation error.
\<close>

theorem variable_name_counterexample:
  "Getenv (env_of [(''FAST_CHAN'', ''1'')] NoStat) ''FAST_CHAN'' = ''1'' \<and>
   fastChan (opt (interp0 [(''FAST_CHAN'', ''1'')] NoStat)) = False \<and>
   cancelChan (snd (projr (EvalWithContext stages_ok (Some Canceled)
                (interp0 [(''FAST_CHAN'', ''1'')] NoStat) ''<-c''))) = True \<and>
   chanOp (snd (projr (EvalWithContext stages_ok (Some Canceled)
             (interp0 [(''FAST_CHAN'', ''1'')] NoStat) ''<-c''))) True (None :: nat option)
     = CancelError"
  by (simp add: EvalWithContext_def stop_def chanOp_def Let_def interp0_fields Getenv_env_of
        ParseBool_def)

section \<open>The prompt of the REPL\<close>

text \<open>
  What an iteration of the REPL writes to the output, whatever the evaluation
  returns: when the test of \<^verbatim>\<open>getPrompt\<close> holds of the input and the iteration
  does not go on reading after incomplete input, the line \<^verbatim>\<open>: <value>\<close> followed
  by the prompt \<^verbatim>\<open>> \<close> if the value is valid and the prompt alone if it is not;
  otherwise nothing. (An empty list of scanner errors makes the iteration panic.)
\<close>

lemma prompt_of_iteration:
  assumes "EvalWithContext P (if cancelled then Some Canceled else None) (r_interp st)
             (r_src st @ line @ nl) = Inr ((v, err), interp')"
    and "err \<noteq> Some (ErrorList [])"
  shows "\<exists>st'. REPL_step P fmtv (getPrompt fmtv inp) st (line, cancelled) = Inr st' \<and>
           r_out st' = r_out st @
             (if char_device inp \<and> \<not> waits err line
              then (case v of Some x \<Rightarrow> '': '' @ fmtv x @ nl @ ''> '' | None \<Rightarrow> ''> '')
              else [])"
proof (cases err)
  case None
  with assms(1) show ?thesis
    by (cases inp rule: char_device.cases)
      (auto simp: REPL_step_def REPL_finish_def getPrompt_def Let_def split: option.splits)
next
  case (Some e)
  show ?thesis
  proof (cases e)
    case (ErrorList es)
    with Some assms(2) obtain e0 es' where es: "es = e0 # es'" by (cases es) auto
    with Some ErrorList assms(1) show ?thesis
      by (cases inp rule: char_device.cases)
        (auto simp: REPL_step_def REPL_finish_def getPrompt_def Let_def split: option.splits)
  next
    case (PanicError p)
    with Some assms(1) show ?thesis
      by (cases inp rule: char_device.cases)
        (auto simp: REPL_step_def REPL_finish_def getPrompt_def Let_def split: option.splits)
  next
    case (ContextError c)
    with Some assms(1) show ?thesis
      by (cases inp rule: char_device.cases)
        (auto simp: REPL_step_def REPL_finish_def getPrompt_def Let_def split: option.splits)
  next
    case (OtherError m)
    with Some assms(1) show ?thesis
      by (cases inp rule: char_device.cases)
        (auto simp: REPL_step_def REPL_finish_def getPrompt_def Let_def split: option.splits)
  qed
qed

text \<open>
  C6. The claim is that the value line and the prompt are printed when the input
  stream is a terminal, and that nothing is printed when it is not a terminal;
  \<^verbatim>\<open>getPrompt\<close> is documented likewise, as printing a prompt only if the input
  is a terminal. The code tests the bit of a character device in the mode that
  \<^verbatim>\<open>Stat\<close> returns. With the device \<^verbatim>\<open>/dev/null\<close> as input, a character
  device that is no terminal, the REPL prints the prompt at its entry, and after the
  line \<^verbatim>\<open>1+2\<close>, of value 3, the value line and the prompt, as it does for a
  terminal; for a regular file it prints nothing.
\<close>

theorem prompt_for_character_device:
  "is_terminal terminal \<and> \<not> is_terminal dev_null \<and> char_device dev_null \<and>
   r_out (projr (REPL stages_ok fmt_nat base_name [[]] (interp0 [] dev_null) [])) = ''> '' \<and>
   r_out (projr (REPL stages_ok fmt_nat base_name [[]] (interp0 [] dev_null) [(''1+2'', False)]))
     = ''> : 3'' @ nl @ ''> '' \<and>
   r_out (projr (REPL stages_ok fmt_nat base_name [[]] (interp0 [] terminal) [(''1+2'', False)]))
     = ''> : 3'' @ nl @ ''> '' \<and>
   r_out (projr (REPL stages_ok fmt_nat base_name [[]] (interp0 [] regular_file)
            [(''1+2'', False)])) = []"
proof -
  have f3: "fmt_nat 3 = ''3''" by (simp add: fmt_nat_def Itoa_def)
  have r: "\<And>inp evs. REPL stages_ok fmt_nat base_name [[]] (interp0 [] inp) evs =
      REPL_loop stages_ok fmt_nat (getPrompt fmt_nat inp)
        ((repl0 [] inp)\<lparr>r_out := getPrompt fmt_nat inp None\<rparr>) evs"
  proof -
    fix inp evs
    have u: "(interp0 [] inp :: (nat, nat, nat, unit) Interpreter)\<lparr>universe := initUniverse\<rparr>
               = interp0 [] inp"
      by (simp add: interp0_def New_def)
    show "REPL stages_ok fmt_nat base_name [[]] (interp0 [] inp) evs =
      REPL_loop stages_ok fmt_nat (getPrompt fmt_nat inp)
        ((repl0 [] inp)\<lparr>r_out := getPrompt fmt_nat inp None\<rparr>) evs"
      by (simp add: REPL_def Let_def visited_def interp0_fields base_name_def skipName_def
            repl0_def u)
  qed
  have g: "getPrompt fmt_nat dev_null =
             (\<lambda>v. (case v of None \<Rightarrow> [] | Some x \<Rightarrow> '': '' @ fmt_nat x @ nl) @ ''> '')"
      "getPrompt fmt_nat terminal =
             (\<lambda>v. (case v of None \<Rightarrow> [] | Some x \<Rightarrow> '': '' @ fmt_nat x @ nl) @ ''> '')"
      "getPrompt fmt_nat regular_file = (\<lambda>v. [])"
    by (simp_all add: getPrompt_def dev_null_def terminal_def regular_file_def ModeCharDevice_def)
  have e: "\<And>inp. \<exists>i'. EvalWithContext stages_ok None (interp0 [] inp) (''1+2'' @ nl)
             = Inr ((Some 3, None), i')"
    using sample_ok_eval by blast
  have t: "is_terminal terminal \<and> \<not> is_terminal dev_null \<and> char_device dev_null"
    by (simp add: dev_null_def terminal_def ModeCharDevice_def)
  have a: "r_out (projr (REPL stages_ok fmt_nat base_name [[]] (interp0 [] dev_null) [])) = ''> ''"
    by (simp add: r g)
  have b: "r_out (projr (REPL stages_ok fmt_nat base_name [[]] (interp0 [] dev_null)
              [(''1+2'', False)])) = ''> : 3'' @ nl @ ''> ''"
    using e [of dev_null]
    by (auto simp: r g repl0_def REPL_step_def REPL_finish_def f3)
  have c: "r_out (projr (REPL stages_ok fmt_nat base_name [[]] (interp0 [] terminal)
              [(''1+2'', False)])) = ''> : 3'' @ nl @ ''> ''"
    using e [of terminal]
    by (auto simp: r g repl0_def REPL_step_def REPL_finish_def f3)
  have d: "r_out (projr (REPL stages_ok fmt_nat base_name [[]] (interp0 [] regular_file)
              [(''1+2'', False)])) = []"
    using e [of regular_file]
    by (auto simp: r g repl0_def REPL_step_def REPL_finish_def f3)
  from t a b c d show ?thesis by blast
qed

section \<open>The exit code of the driver\<close>

text \<open>
  C8. The driver ends with code 0 when it has no argument (it runs the REPL) and when
  it has read its input file of two bytes or more, whatever the evaluation returns;
  it ends with code 1 when the input file cannot be read.
\<close>

theorem driver_exit_codes:
  "exit_code (main readFile Eval_err interactive []) = 0 \<and>
   (readFile a = None \<longrightarrow> exit_code (main readFile Eval_err interactive (a # as)) = 1) \<and>
   (readFile a = Some b \<and> 2 \<le> length b \<longrightarrow>
      exit_code (main readFile Eval_err interactive (a # as)) = 0)"
  by (simp add: main_def Let_def)

text \<open>A file that cannot be read, and a file that is read and evaluated.\<close>

theorem driver_exit_codes_witness:
  "exit_code (main no_file eval_succeeds False [''missing.go'']) = 1 \<and>
   exit_code (main (one_file ''println(1)'') eval_succeeds False [''a.go'']) = 0"
  using driver_exit_codes [where readFile = no_file and Eval_err = eval_succeeds
            and interactive = False and a = "''missing.go''" and as = "[]"]
        driver_exit_codes [where readFile = "one_file ''println(1)''" and Eval_err = eval_succeeds
            and interactive = False and a = "''a.go''" and b = "''println(1)''" and as = "[]"]
  by (simp add: no_file_def one_file_def)

text \<open>
  A file that cannot be read gives the code 1, not 2; an evaluation that returns an
  error has the error printed and gives the code 0, not 1.
\<close>

theorem exit_code_counterexample:
  "exit_code (main no_file eval_succeeds False [''missing.go'']) = 1 \<and>
   printed (main (one_file ''x + 1'') eval_fails False [''a.go'']) = [''1:1: undefined: x''] \<and>
   exit_code (main (one_file ''x + 1'') eval_fails False [''a.go'']) = 0"
  by (simp add: main_def no_file_def one_file_def eval_fails_def Let_def)

section \<open>Evaluation without execution\<close>

text \<open>What \<open>opt_kept\<close> gives for each stage, and the steps of \<^verbatim>\<open>eval\<close> that keep the options.\<close>

lemma opt_keptD:
  assumes "opt_kept P"
  shows "ast P i a b c = (r1, i1) \<Longrightarrow> opt i1 = opt i"
    and "node_astDot P i n cmd nm = (r2, i2) \<Longrightarrow> opt i2 = opt i"
    and "gtaRetry P i ns p = (r3, i3) \<Longrightarrow> opt i3 = opt i"
    and "cfg P i n p = (r4, i4) \<Longrightarrow> opt i4 = opt i"
    and "node_cfgDot P i n cmd = (r5, i5) \<Longrightarrow> opt i5 = opt i"
    and "setExec P i n = (r6, i6) \<Longrightarrow> opt i6 = opt i"
  using assms unfolding opt_kept_def by (metis snd_conv)+

lemma publishPkg_opt: "publishPkg i p = Some i' \<Longrightarrow> opt i' = opt i"
  by (auto simp: publishPkg_def split: if_splits option.splits)

lemma setName_opt: "opt (setName i nm) = opt i"
  by (simp add: setName_def Let_def)

lemma step_setExec_opt:
  "opt_kept P \<Longrightarrow> step_setExec P i tr root = (r, i', tr') \<Longrightarrow>
     opt i' = opt i \<and> filter is_exec tr' = filter is_exec tr"
  by (auto simp: step_setExec_def split: if_splits prod.splits dest: opt_keptD(6))

lemma step_astDot_opt:
  "opt_kept P \<Longrightarrow> step_astDot P i tr root = (r, ret, i', tr') \<Longrightarrow>
     opt i' = opt i \<and> filter is_exec tr' = filter is_exec tr"
  by (auto simp: step_astDot_def Let_def split: if_splits prod.splits dest: opt_keptD(2))

text \<open>
  Under \<^verbatim>\<open>noRun\<close> no part of the body of \<^verbatim>\<open>eval\<close> adds a call that generates
  closures or executes nodes to the log.
\<close>

lemma dump_run_noRun:
  assumes "opt_kept P" "noRun (opt i)"
  shows "filter is_exec (calls (eval_dump_run P i tr root pkg ns)) = filter is_exec tr"
  using assms
  by (auto simp: eval_dump_run_def calls_def Let_def dest: opt_keptD(5)
      split: prod.splits outcome.splits)

lemma link_noRun:
  assumes "opt_kept P" "noRun (opt i)"
  shows "filter is_exec (calls (eval_link P i tr root pkg ns)) = filter is_exec tr"
proof (cases "step_setExec P i tr root")
  case (fields r i' tr')
  from step_setExec_opt [OF assms(1) fields]
  have o: "opt i' = opt i" and t: "filter is_exec tr' = filter is_exec tr" by simp_all
  show ?thesis
  proof (cases r)
    case (Panicked x pcs stk)
    with fields t show ?thesis by (simp add: eval_link_def calls_def Let_def)
  next
    case (Done u)
    show ?thesis
    proof (cases "publishPkg i' pkg")
      case None
      with fields Done t show ?thesis
        by (simp add: eval_link_def calls_def Let_def split: prod.splits)
    next
      case (Some i'')
      with publishPkg_opt o assms(2) have "noRun (opt i'')" by metis
      from dump_run_noRun [OF assms(1) this] fields Done Some t show ?thesis
        by (simp add: eval_link_def Let_def)
    qed
  qed
qed

lemma cfg_noRun:
  assumes "opt_kept P" "noRun (opt i)"
  shows "filter is_exec (calls (eval_cfg P i tr root pkg)) = filter is_exec tr"
proof (cases "cfg P i root pkg")
  case (Pair r i')
  from opt_keptD(4) [OF assms(1) Pair] assms(2) have n: "noRun (opt i')" by simp
  show ?thesis
  proof (cases r)
    case (Panicked x pcs stk)
    with Pair show ?thesis by (simp add: eval_cfg_def calls_def Let_def)
  next
    case (Done res)
    obtain ns e where res: "res = (ns, e)" by (cases res)
    show ?thesis
    proof (cases e)
      case None
      from link_noRun [OF assms(1) n] Pair Done res None show ?thesis
        by (simp add: eval_cfg_def Let_def)
    next
      case (Some err)
      with Pair Done res show ?thesis
        by (auto simp: eval_cfg_def calls_def Let_def split: prod.splits outcome.splits)
    qed
  qed
qed

lemma gta_noRun:
  assumes "opt_kept P" "noRun (opt i)"
  shows "filter is_exec (calls (eval_gta P i tr root pkg)) = filter is_exec tr"
proof (cases "gtaRetry P i [root] pkg")
  case (Pair r i')
  from opt_keptD(3) [OF assms(1) Pair] assms(2) have n: "noRun (opt i')" by simp
  show ?thesis
  proof (cases r)
    case (Panicked x pcs stk)
    with Pair show ?thesis by (simp add: eval_gta_def calls_def Let_def)
  next
    case (Done e)
    show ?thesis
    proof (cases e)
      case None
      from cfg_noRun [OF assms(1) n] Pair Done None show ?thesis
        by (simp add: eval_gta_def Let_def)
    next
      case (Some err)
      with Pair Done show ?thesis by (simp add: eval_gta_def calls_def Let_def)
    qed
  qed
qed

lemma ast_noRun:
  assumes "opt_kept P" "noRun (opt i)"
  shows "filter is_exec (calls (eval_ast P i src inc)) = []"
proof (cases "ast P i src (name i) inc")
  case (Pair r i')
  from opt_keptD(1) [OF assms(1) Pair] assms(2) have n: "noRun (opt i')" by simp
  show ?thesis
  proof (cases r)
    case (Panicked x pcs stk)
    with Pair show ?thesis by (simp add: eval_ast_def calls_def Let_def)
  next
    case (Done res)
    obtain pkg ro e where res: "res = (pkg, ro, e)" by (cases res)
    show ?thesis
    proof (cases "ro = None \<or> e \<noteq> None")
      case True
      with Pair Done res show ?thesis
        by (auto simp: eval_ast_def calls_def Let_def split: option.splits)
    next
      case False
      then obtain root where ro: "ro = Some root" and e: "e = None" by auto
      obtain r2 ret i2 tr2 where s: "step_astDot P i' [Ast src (name i) inc] root = (r2, ret, i2, tr2)"
        by (cases "step_astDot P i' [Ast src (name i) inc] root") auto
      from step_astDot_opt [OF assms(1) s] n
      have n2: "noRun (opt i2)" and t2: "filter is_exec tr2 = []" by simp_all
      from gta_noRun [OF assms(1) n2, of tr2 root pkg] Pair Done res ro e s t2 show ?thesis
        by (cases r2) (auto simp: eval_ast_def calls_def Let_def)
    qed
  qed
qed

lemma eval_noRun:
  assumes "opt_kept P" "noRun (opt i)"
  shows "filter is_exec (trace (eval P i src nm inc)) = []"
proof -
  have "noRun (opt (setName i nm))" using assms(2) by (simp add: setName_opt)
  from ast_noRun [OF assms(1) this, of src inc] show ?thesis
    by (auto simp: eval_def eval_body_def trace_def calls_def Let_def
        split: prod.splits flow.splits)
qed


text \<open>Every part of the body only adds calls at the end of the log.\<close>

lemma run_all_extends: "\<exists>x. snd (snd (run_all P i tr ns)) = tr @ x"
proof (induction ns arbitrary: i tr)
  case Nil
  show ?case by simp
next
  case (Cons n ns)
  show ?case
  proof (cases "run P i n True")
    case (Pair r i')
    show ?thesis
    proof (cases r)
      case (Panicked x pcs stk)
      with Pair show ?thesis by simp
    next
      case (Done u)
      from Cons.IH [of i' "tr @ [Run n True]"] Pair Done show ?thesis by auto
    qed
  qed
qed

lemma exec_extends: "\<exists>x. calls (eval_exec P i tr root pkg ns) = tr @ x"
proof -
  have r: "\<And>i' tr' u i'' tr''. run_all P i' tr' ns = (u, i'', tr'') \<Longrightarrow> \<exists>x. tr'' = tr' @ x"
    using run_all_extends [of P _ _ ns] by (metis snd_conv)
  show ?thesis
    by (auto simp: eval_exec_def calls_def Let_def dest!: r
        split: prod.splits outcome.splits option.splits)
qed

lemma dump_run_extends: "\<exists>x. calls (eval_dump_run P i tr root pkg ns) = tr @ x"
  using exec_extends [of P _ _ root pkg ns]
  apply (simp add: eval_dump_run_def Let_def split: prod.splits outcome.splits)
  apply (auto simp: calls_def)
  apply (metis append.assoc)+
  done


lemma step_setExec_extends:
  "step_setExec P i tr root = (r, i', tr') \<Longrightarrow> \<exists>x. tr' = tr @ x"
  by (auto simp: step_setExec_def split: if_splits prod.splits)

lemma link_extends: "\<exists>x. calls (eval_link P i tr root pkg ns) = tr @ x"
proof (cases "step_setExec P i tr root")
  case (fields r i' tr')
  from step_setExec_extends [OF fields] obtain y where y: "tr' = tr @ y" by blast
  show ?thesis
  proof (cases r)
    case (Panicked x pcs stk)
    with fields y show ?thesis by (simp add: eval_link_def calls_def Let_def)
  next
    case (Done u)
    show ?thesis
    proof (cases "publishPkg i' pkg")
      case None
      with fields Done y show ?thesis
        by (simp add: eval_link_def calls_def Let_def split: prod.splits)
    next
      case (Some i'')
      obtain ns' where ns': "ns' = (case interp_main i of None \<Rightarrow> ns | Some m \<Rightarrow> ns @ [m])"
        by simp
      from dump_run_extends [of P i'' tr' root pkg ns'] obtain z
        where "calls (eval_dump_run P i'' tr' root pkg ns') = tr' @ z" by blast
      with fields Done Some y ns' show ?thesis
        by (simp add: eval_link_def Let_def)
    qed
  qed
qed

lemma cfg_extends: "\<exists>x. calls (eval_cfg P i tr root pkg) = tr @ Cfg root pkg # x"
proof (cases "cfg P i root pkg")
  case (Pair r i')
  show ?thesis
  proof (cases r)
    case (Panicked x pcs stk)
    with Pair show ?thesis by (simp add: eval_cfg_def calls_def Let_def)
  next
    case (Done res)
    obtain ns e where res: "res = (ns, e)" by (cases res)
    show ?thesis
    proof (cases e)
      case None
      from link_extends [of P i' "tr @ [Cfg root pkg]" root pkg ns] Pair Done res None
      show ?thesis by (auto simp: eval_cfg_def Let_def)
    next
      case (Some err)
      with Pair Done res show ?thesis
        by (auto simp: eval_cfg_def calls_def Let_def split: prod.splits outcome.splits)
    qed
  qed
qed

lemma gta_extends:
  "\<exists>x. calls (eval_gta P i tr root pkg) = tr @ GtaRetry [root] pkg # x"
proof (cases "gtaRetry P i [root] pkg")
  case (Pair r i')
  show ?thesis
  proof (cases r)
    case (Panicked x pcs stk)
    with Pair show ?thesis by (simp add: eval_gta_def calls_def Let_def)
  next
    case (Done e)
    show ?thesis
    proof (cases e)
      case None
      from cfg_extends [of P i' "tr @ [GtaRetry [root] pkg]" root pkg] Pair Done None
      show ?thesis by (auto simp: eval_gta_def Let_def)
    next
      case (Some err)
      with Pair Done show ?thesis by (simp add: eval_gta_def calls_def Let_def)
    qed
  qed
qed

lemma step_astDot_extends:
  "step_astDot P i tr root = (r, ret, i', tr') \<Longrightarrow> \<exists>x. tr' = tr @ x"
  by (auto simp: step_astDot_def Let_def split: if_splits prod.splits)

lemma ast_first: "\<exists>x. calls (eval_ast P i src inc) = Ast src (name i) inc # x"
proof (cases "ast P i src (name i) inc")
  case (Pair r i')
  show ?thesis
  proof (cases r)
    case (Panicked x pcs stk)
    with Pair show ?thesis by (simp add: eval_ast_def calls_def Let_def)
  next
    case (Done res)
    obtain pkg ro e where res: "res = (pkg, ro, e)" by (cases res)
    show ?thesis
    proof (cases "ro = None \<or> e \<noteq> None")
      case True
      with Pair Done res show ?thesis
        by (auto simp: eval_ast_def calls_def Let_def split: option.splits)
    next
      case False
      then obtain root where ro: "ro = Some root" and e: "e = None" by auto
      obtain r2 ret i2 tr2 where s: "step_astDot P i' [Ast src (name i) inc] root = (r2, ret, i2, tr2)"
        by (cases "step_astDot P i' [Ast src (name i) inc] root") auto
      from step_astDot_extends [OF s] obtain y where y: "tr2 = Ast src (name i) inc # y" by auto
      from gta_extends [of P i2 tr2 root pkg] Pair Done res ro e s y show ?thesis
        by (cases r2) (auto simp: eval_ast_def calls_def Let_def)
    qed
  qed
qed

text \<open>The log of \<^verbatim>\<open>eval\<close> is the log of its body; it starts with the call of the parser.\<close>

lemma eval_trace: "trace (eval P i src nm inc) = calls (eval_body P i src nm inc)"
  by (auto simp: eval_def trace_def calls_def Let_def split: prod.splits flow.splits)

lemma eval_first: "\<exists>x. trace (eval P i src nm inc) = Ast src (name (setName i nm)) inc # x"
  using ast_first [of P "setName i nm" src inc] by (simp add: eval_trace eval_body_def)

lemma ast_gta_cfg:
  assumes "ast P i src (name i) inc = (Done (pkg, Some root, None), i2)"
    and "\<not> astDot (opt i2)"
    and "gtaRetry P i2 [root] pkg = (Done None, i3)"
  shows "\<exists>x. calls (eval_ast P i src inc) =
           Ast src (name i) inc # GtaRetry [root] pkg # Cfg root pkg # x"
  using assms cfg_extends [of P i3 "[Ast src (name i) inc, GtaRetry [root] pkg]" root pkg]
  by (auto simp: eval_ast_def step_astDot_def eval_gta_def Let_def)

lemma ast_dump_only:
  assumes "opt_kept P" "noRun (opt i)" 
    and "ast P i src (name i) inc = (Done (pkg, Some root, None), i2)"
    and "astDot (opt i)"
  shows "calls (eval_ast P i src inc) =
           [Ast src (name i) inc, AstDot root (dotCmdOf P i2 ''yaegi-ast-'') (name i2)]"
proof -
  from opt_keptD(1) [OF assms(1,3)] have o: "opt i2 = opt i" .
  obtain r3 i3 where d: "node_astDot P i2 root (dotCmdOf P i2 ''yaegi-ast-'') (name i2) = (r3, i3)"
    by (cases "node_astDot P i2 root (dotCmdOf P i2 ''yaegi-ast-'') (name i2)") auto
  from opt_keptD(2) [OF assms(1) d] o have "noRun (opt i3)" using assms(2) by simp
  with assms d o show ?thesis
    by (cases r3) (auto simp: eval_ast_def step_astDot_def calls_def Let_def)
qed

text \<open>
  C5. \<^verbatim>\<open>New\<close> reads the option \<^verbatim>\<open>noRun\<close> as a boolean from the environment
  (the variable \<^verbatim>\<open>YAEGI_NO_RUN\<close>). Let the stages leave the options as
  \<^verbatim>\<open>New\<close> set them, and let \<^verbatim>\<open>noRun\<close> be set. Then \<^verbatim>\<open>eval\<close> makes no call of \<^verbatim>\<open>genRun\<close>,
  \<^verbatim>\<open>run\<close>, \<^verbatim>\<open>genGlobalVars\<close>, \<^verbatim>\<open>genValue\<close> or
  \<^verbatim>\<open>genFunctionWrapper\<close>. When the parser returns a root without error: if
  \<^verbatim>\<open>astDot\<close> is set, \<^verbatim>\<open>eval\<close> returns after the dump of the AST, so that the
  parse and the dump are its only calls; if \<^verbatim>\<open>astDot\<close> is not set and the global
  type analysis succeeds, the first three calls are the parse, the global type
  analysis and the construction of the CFG.
\<close>

theorem no_run_compiles_only:
  assumes "opt_kept P" and "noRun (opt interp)"
  shows "noRun (opt (New env w options :: ('v, 'n, 't, 'w) Interpreter)) =
           fst (ParseBool (Getenv env ''YAEGI_NO_RUN'')) \<and>
    filter is_exec (trace (eval P interp src nm inc)) = [] \<and>
    (ast P (setName interp nm) src (name (setName interp nm)) inc = (Done (pkg, Some root, None), i2) \<longrightarrow>
       (astDot (opt interp) \<longrightarrow>
          trace (eval P interp src nm inc) =
            [Ast src (name (setName interp nm)) inc,
             AstDot root (dotCmdOf P i2 ''yaegi-ast-'') (name i2)]) \<and>
       (\<not> astDot (opt interp) \<and> gtaRetry P i2 [root] pkg = (Done None, i3) \<longrightarrow>
          take 3 (trace (eval P interp src nm inc)) =
            [Ast src (name (setName interp nm)) inc, GtaRetry [root] pkg, Cfg root pkg]))"
proof (intro conjI impI)
  show "noRun (opt (New env w options :: ('v, 'n, 't, 'w) Interpreter)) =
          fst (ParseBool (Getenv env ''YAEGI_NO_RUN''))"
    by (simp add: New_def)
next
  show "filter is_exec (trace (eval P interp src nm inc)) = []"
    using eval_noRun [OF assms] .
next
  assume a: "ast P (setName interp nm) src (name (setName interp nm)) inc
               = (Done (pkg, Some root, None), i2)"
    and d: "astDot (opt interp)"
  from ast_dump_only [OF assms(1) _ a] assms(2) d
  show "trace (eval P interp src nm inc) =
            [Ast src (name (setName interp nm)) inc,
             AstDot root (dotCmdOf P i2 ''yaegi-ast-'') (name i2)]"
    by (simp add: eval_trace eval_body_def setName_opt)
next
  assume a: "ast P (setName interp nm) src (name (setName interp nm)) inc
               = (Done (pkg, Some root, None), i2)"
    and g: "\<not> astDot (opt interp) \<and> gtaRetry P i2 [root] pkg = (Done None, i3)"
  from opt_keptD(1) [OF assms(1) a] g have "\<not> astDot (opt i2)" by (simp add: setName_opt)
  from ast_gta_cfg [OF a this] g
  show "take 3 (trace (eval P interp src nm inc)) =
            [Ast src (name (setName interp nm)) inc, GtaRetry [root] pkg, Cfg root pkg]"
    by (auto simp: eval_trace eval_body_def)
qed


text \<open>The sample stages keep the options.\<close>

lemma stages_ok_opt_kept: "opt_kept stages_ok"
  by (simp add: opt_kept_def stages_ok_def)

text \<open>On the sample interpreter created with \<^verbatim>\<open>YAEGI_NO_RUN=true\<close>.\<close>

theorem no_run_compiles_only_witness:
  "filter is_exec (trace (eval stages_ok (interp0 [(''YAEGI_NO_RUN'', ''true'')] NoStat)
      ''package main'' [] False)) = [] \<and>
   take 3 (trace (eval stages_ok (interp0 [(''YAEGI_NO_RUN'', ''true'')] NoStat)
      ''package main'' [] False)) =
     [Ast ''package main'' ''_.go'' False, GtaRetry [0] ''main'', Cfg 0 ''main'']"
proof -
  let ?i = "interp0 [(''YAEGI_NO_RUN'', ''true'')] NoStat"
  have n: "noRun (opt ?i)" and d: "\<not> astDot (opt ?i)"
    by (simp_all add: interp0_fields Getenv_env_of ParseBool_def)
  have nm: "name (setName ?i []) = ''_.go''"
    by (simp add: setName_def interp0_fields DefaultSourceName_def)
  have a: "ast stages_ok (setName ?i []) ''package main'' (name (setName ?i [])) False =
             (Done (''main'', Some 0, None), setName ?i [])"
    by (simp add: stages_ok_def)
  have g: "gtaRetry stages_ok (setName ?i []) [0] ''main'' =
             (Done None, snd (gtaRetry stages_ok (setName ?i []) [0] ''main''))"
    by (simp add: stages_ok_def)
  from no_run_compiles_only [OF stages_ok_opt_kept n, where src = "''package main''"
      and nm = "[]" and inc = False and pkg = "''main''" and root = 0
      and ?i2.0 = "setName ?i []"
      and ?i3.0 = "snd (gtaRetry stages_ok (setName ?i []) [0] ''main'')",
      THEN conjunct2] a g d nm
  show ?thesis by simp
qed

text \<open>
  With \<^verbatim>\<open>YAEGI_AST_DOT=1\<close> and \<^verbatim>\<open>YAEGI_NO_RUN=1\<close> the evaluation parses the
  source, dumps the AST and returns: neither the global type analysis nor the
  construction of the CFG is called.
\<close>

theorem ast_dump_counterexample:
  "noRun (opt (interp0 [(''YAEGI_AST_DOT'', ''1''), (''YAEGI_NO_RUN'', ''1'')] NoStat)) \<and>
   trace (eval stages_ok (interp0 [(''YAEGI_AST_DOT'', ''1''), (''YAEGI_NO_RUN'', ''1'')] NoStat)
      ''package main'' [] False) =
     [Ast ''package main'' ''_.go'' False, AstDot 0 ''dot'' ''_.go'']"
  by (simp add: trace_def eval_def sample_eval_defs)

section \<open>Shebang lines\<close>

lemma HasPrefix_shebang: "HasPrefix b ''#!'' \<longleftrightarrow> 2 \<le> length b \<and> take 2 b = ''#!''"
  by (simp add: HasPrefix_def numeral_2_eq_2)

lemma Replace1_shebang: "HasPrefix b ''#!'' \<Longrightarrow> Replace1 b ''#!'' ''//'' = ''//'' @ drop 2 b"
  by (cases b) (simp_all add: HasPrefix_def numeral_2_eq_2)

lemma shebang_comment: "HasPrefix src ''#!'' \<Longrightarrow> shebang (''//'' @ drop 2 src) = shebang src"
  by (simp add: shebang_def HasPrefix_def)

text \<open>
  How a part of the body of \<^verbatim>\<open>eval\<close> ends does not depend on the log of calls
  that it is given.
\<close>

lemma run_all_log:
  "run_all P i tr ns =
     (fst (run_all P i [] ns), fst (snd (run_all P i [] ns)), tr @ snd (snd (run_all P i [] ns)))"
proof (induction ns arbitrary: i tr)
  case Nil
  show ?case by simp
next
  case (Cons n ns)
  show ?case
  proof (cases "run P i n True")
    case (Pair r j)
    show ?thesis
    proof (cases r)
      case (Panicked x pcs stk)
      with Pair show ?thesis by simp
    next
      case (Done v)
      have a: "run_all P i tr (n # ns) = run_all P j (tr @ [Run n True]) ns"
        using Pair Done by simp
      have b: "run_all P i [] (n # ns) = run_all P j [Run n True] ns"
        using Pair Done by simp
      obtain A B C where e: "run_all P j [] ns = (A, B, C)"
        by (cases "run_all P j [] ns") auto
      from Cons.IH [of j "tr @ [Run n True]"] e
      have c: "run_all P j (tr @ [Run n True]) ns = (A, B, (tr @ [Run n True]) @ C)" by simp
      from Cons.IH [of j "[Run n True]"] e
      have d: "run_all P j [Run n True] ns = (A, B, [Run n True] @ C)" by simp
      show ?thesis unfolding a b c d by simp
    qed
  qed
qed


lemma exec_log:
  "ended (eval_exec P i tr root pkg ns) = ended (eval_exec P i tr' root pkg ns)"
proof -
  note d = eval_exec_def ended_def Let_def
  obtain r1 i1 where c1: "genRun P i root = (r1, i1)" by (cases "genRun P i root")
  show ?thesis
  proof (cases r1)
    case (Panicked x pcs stk)
    with c1 show ?thesis by (simp add: d)
  next
    case D1: (Done e)
    show ?thesis
    proof (cases e)
      case (Some err)
      with c1 D1 show ?thesis by (simp add: d)
    next
      case N1: None
      let ?i2 = "resizeFrame P (i1\<lparr>frame := (frame i1)\<lparr>fid := runid i1\<rparr>\<rparr>)"
      obtain r2 i3 where c2: "run P ?i2 root False = (r2, i3)" by (cases "run P ?i2 root False")
      show ?thesis
      proof (cases r2)
        case (Panicked x pcs stk)
        with c1 D1 N1 c2 show ?thesis by (simp add: d)
      next
        case D2: (Done u2)
        obtain r3 i4 where c3: "genGlobalVars P i3 [root] (scopes i3 pkg) = (r3, i4)"
          by (cases "genGlobalVars P i3 [root] (scopes i3 pkg)")
        show ?thesis
        proof (cases r3)
          case (Panicked x pcs stk)
          with c1 D1 N1 c2 D2 c3 show ?thesis by (simp add: d)
        next
          case D3: (Done res3)
          obtain n e3 where res3: "res3 = (n, e3)" by (cases res3)
          show ?thesis
          proof (cases e3)
            case (Some err)
            with c1 D1 N1 c2 D2 c3 D3 res3 show ?thesis by (simp add: d)
          next
            case N3: None
            obtain r4 i5 where c4: "run P i4 n False = (r4, i5)" by (cases "run P i4 n False")
            show ?thesis
            proof (cases r4)
              case (Panicked x pcs stk)
              with c1 D1 N1 c2 D2 c3 D3 res3 N3 c4 show ?thesis by (simp add: d)
            next
              case D4: (Done u4)
              obtain A B C where e: "run_all P i5 [] ns = (A, B, C)"
                by (cases "run_all P i5 [] ns") auto
              have ra: "\<And>t. run_all P i5 t ns = (A, B, t @ C)"
                using run_all_log [of P i5 _ ns] e by simp
              show ?thesis
              proof (cases A)
                case (Panicked x pcs stk)
                with c1 D1 N1 c2 D2 c3 D3 res3 N3 c4 D4 ra show ?thesis by (simp add: d)
              next
                case D5: (Done u5)
                with c1 D1 N1 c2 D2 c3 D3 res3 N3 c4 D4 ra show ?thesis
                  by (simp add: d split: prod.splits outcome.splits option.splits)
              qed
            qed
          qed
        qed
      qed
    qed
  qed
qed

lemma dump_run_log:
  "ended (eval_dump_run P i tr root pkg ns) = ended (eval_dump_run P i tr' root pkg ns)"
proof -
  have e: "\<And>j t t'. ended (eval_exec P j t root pkg ns) = ended (eval_exec P j t' root pkg ns)"
    by (rule exec_log)
  have r: "ended (Returns, None, None, j, t) = ended (Returns, None, None, j, t')" for j t t'
    by (simp add: ended_def)
  show ?thesis
  proof (cases "cfgDot (opt i)")
    case False
    with e [of i tr tr'] show ?thesis by (simp add: eval_dump_run_def ended_def)
  next
    case True
    obtain r1 i1 where c: "node_cfgDot P i root (dotCmdOf P i ''yaegi-cfg-'') = (r1, i1)"
      by (cases "node_cfgDot P i root (dotCmdOf P i ''yaegi-cfg-'')")
    show ?thesis
    proof (cases r1)
      case (Panicked x pcs stk)
      with True c show ?thesis by (simp add: eval_dump_run_def ended_def Let_def)
    next
      case (Done u)
      with True c e [of i1 "tr @ [CfgDot root (dotCmdOf P i ''yaegi-cfg-'')]"
          "tr' @ [CfgDot root (dotCmdOf P i ''yaegi-cfg-'')]"]
      show ?thesis by (simp add: eval_dump_run_def ended_def Let_def)
    qed
  qed
qed

lemma step_setExec_log:
  "step_setExec P i tr root = (r, i', t) \<Longrightarrow>
     \<exists>t'. step_setExec P i tr' root = (r, i', t')"
  by (auto simp: step_setExec_def split: if_splits prod.splits)

lemma link_log:
  "ended (eval_link P i tr root pkg ns) = ended (eval_link P i tr' root pkg ns)"
proof (cases "step_setExec P i tr root")
  case (fields r i' t)
  from step_setExec_log [OF fields] obtain t' where s: "step_setExec P i tr' root = (r, i', t')"
    by blast
  show ?thesis
  proof (cases r)
    case (Panicked x pcs stk)
    with fields s show ?thesis by (simp add: eval_link_def ended_def Let_def)
  next
    case (Done u)
    show ?thesis
    proof (cases "publishPkg i' pkg")
      case None
      with fields s Done show ?thesis
        by (simp add: eval_link_def ended_def Let_def split: prod.splits)
    next
      case (Some i'')
      with fields s Done
        dump_run_log [of P i'' t root pkg
          "case interp_main i of None \<Rightarrow> ns | Some m \<Rightarrow> ns @ [m]" t']
      show ?thesis by (simp add: eval_link_def Let_def)
    qed
  qed
qed

lemma cfg_log:
  "ended (eval_cfg P i tr root pkg) = ended (eval_cfg P i tr' root pkg)"
proof (cases "cfg P i root pkg")
  case (Pair r i')
  show ?thesis
  proof (cases r)
    case (Panicked x pcs stk)
    with Pair show ?thesis by (simp add: eval_cfg_def ended_def Let_def)
  next
    case (Done res)
    obtain ns e where res: "res = (ns, e)" by (cases res)
    show ?thesis
    proof (cases e)
      case None
      with Pair Done res
        link_log [of P i' "tr @ [Cfg root pkg]" root pkg ns "tr' @ [Cfg root pkg]"]
      show ?thesis by (simp add: eval_cfg_def Let_def)
    next
      case (Some err)
      with Pair Done res show ?thesis
        by (simp add: eval_cfg_def ended_def Let_def split: prod.splits outcome.splits)
    qed
  qed
qed

lemma gta_log:
  "ended (eval_gta P i tr root pkg) = ended (eval_gta P i tr' root pkg)"
proof (cases "gtaRetry P i [root] pkg")
  case (Pair r i')
  show ?thesis
  proof (cases r)
    case (Panicked x pcs stk)
    with Pair show ?thesis by (simp add: eval_gta_def ended_def Let_def)
  next
    case (Done e)
    show ?thesis
    proof (cases e)
      case None
      with Pair Done
        cfg_log [of P i' "tr @ [GtaRetry [root] pkg]" root pkg "tr' @ [GtaRetry [root] pkg]"]
      show ?thesis by (simp add: eval_gta_def Let_def)
    next
      case (Some err)
      with Pair Done show ?thesis by (simp add: eval_gta_def ended_def Let_def)
    qed
  qed
qed

lemma step_astDot_log:
  "step_astDot P i tr root = (r, ret, i', t) \<Longrightarrow>
     \<exists>t'. step_astDot P i tr' root = (r, ret, i', t')"
  by (auto simp: step_astDot_def Let_def split: if_splits prod.splits)

text \<open>
  The source is used by the body of \<^verbatim>\<open>eval\<close> in the call of \<^verbatim>\<open>ast\<close> only: two
  sources for which that call returns the same make the body end in the same way.
\<close>

lemma ast_same:
  assumes "ast P i src (name i) inc = ast P i src' (name i) inc"
  shows "ended (eval_ast P i src inc) = ended (eval_ast P i src' inc)"
proof (cases "ast P i src (name i) inc")
  case (Pair r i')
  with assms have p': "ast P i src' (name i) inc = (r, i')" by simp
  show ?thesis
  proof (cases r)
    case (Panicked x pcs stk)
    with Pair p' show ?thesis by (simp add: eval_ast_def ended_def Let_def)
  next
    case (Done res)
    obtain pkg ro e where res: "res = (pkg, ro, e)" by (cases res)
    show ?thesis
    proof (cases "ro = None \<or> e \<noteq> None")
      case True
      with Pair p' Done res show ?thesis
        by (auto simp: eval_ast_def ended_def Let_def split: option.splits)
    next
      case False
      then obtain root where ro: "ro = Some root" and e: "e = None" by auto
      obtain r2 ret i2 t2 where s: "step_astDot P i' [Ast src (name i) inc] root = (r2, ret, i2, t2)"
        by (cases "step_astDot P i' [Ast src (name i) inc] root") auto
      from step_astDot_log [OF s] obtain t2'
        where s': "step_astDot P i' [Ast src' (name i) inc] root = (r2, ret, i2, t2')" by blast
      from gta_log [of P i2 t2 root pkg t2'] Pair p' Done res ro e s s' show ?thesis
        by (cases r2) (auto simp: eval_ast_def ended_def Let_def)
    qed
  qed
qed

lemma eval_same:
  assumes "ast P (setName i nm) src (name (setName i nm)) inc =
           ast P (setName i nm) src' (name (setName i nm)) inc"
  shows "returned (eval P i src nm inc) = returned (eval P i src' nm inc)"
  using ast_same [OF assms]
  by (auto simp: eval_def eval_body_def returned_def ended_def Let_def
      split: prod.splits flow.splits)

text \<open>
  C7. When the file read by the driver begins with \<^verbatim>\<open>#!\<close>, the source that the
  driver hands to \<^verbatim>\<open>Eval\<close> is the file with these two bytes replaced by
  \<^verbatim>\<open>//\<close>; a file of two bytes or more that does not begin with \<^verbatim>\<open>#!\<close> is
  handed over as it is. In the evaluator the source goes to the stage that builds the
  AST and is used nowhere else; when that stage treats a shebang line as the spec
  says, \<^verbatim>\<open>eval\<close> returns for a source that begins with \<^verbatim>\<open>#!\<close> what it
  returns for the source with these two bytes replaced by \<^verbatim>\<open>//\<close>, and leaves
  the same interpreter, and so does \<^verbatim>\<open>EvalPath\<close> for a file with that content.
\<close>

theorem shebang_line_is_comment:
  "(readFile a = Some b \<and> HasPrefix b ''#!'' \<longrightarrow>
      evaluated (main readFile Eval_err interactive (a # as)) = Some (''//'' @ drop 2 b)) \<and>
   (readFile a = Some b \<and> 2 \<le> length b \<and> \<not> HasPrefix b ''#!'' \<longrightarrow>
      evaluated (main readFile Eval_err interactive (a # as)) = Some b) \<and>
   (ast P = ast_spec parse \<and> HasPrefix src ''#!'' \<longrightarrow>
      returned (eval P interp src nm inc) =
      returned (eval P interp (''//'' @ drop 2 src) nm inc)) \<and>
   (ast P = ast_spec parse \<and> readF pth = Inr src \<and> HasPrefix src ''#!'' \<longrightarrow>
      returned (EvalPath P readF interp pth) =
      returned (eval P interp (''//'' @ drop 2 src) pth False))"
proof (intro conjI impI)
  assume h: "readFile a = Some b \<and> HasPrefix b ''#!''"
  with Replace1_shebang [of b] HasPrefix_shebang [of b]
  show "evaluated (main readFile Eval_err interactive (a # as)) = Some (''//'' @ drop 2 b)"
    by (simp add: main_def Let_def)
next
  assume "readFile a = Some b \<and> 2 \<le> length b \<and> \<not> HasPrefix b ''#!''"
  with HasPrefix_shebang [of b]
  show "evaluated (main readFile Eval_err interactive (a # as)) = Some b"
    by (simp add: main_def Let_def)
next
  assume h: "ast P = ast_spec parse \<and> HasPrefix src ''#!''"
  with shebang_comment [of src]
  have "ast P (setName interp nm) src (name (setName interp nm)) inc =
        ast P (setName interp nm) (''//'' @ drop 2 src) (name (setName interp nm)) inc"
    by (simp add: ast_spec_def)
  then show "returned (eval P interp src nm inc) =
             returned (eval P interp (''//'' @ drop 2 src) nm inc)"
    by (rule eval_same)
next
  assume h: "ast P = ast_spec parse \<and> readF pth = Inr src \<and> HasPrefix src ''#!''"
  with shebang_comment [of src]
  have "ast P (setName interp pth) src (name (setName interp pth)) False =
        ast P (setName interp pth) (''//'' @ drop 2 src) (name (setName interp pth)) False"
    by (simp add: ast_spec_def)
  from eval_same [OF this] h
  show "returned (EvalPath P readF interp pth) =
        returned (eval P interp (''//'' @ drop 2 src) pth False)"
    by (simp add: EvalPath_def)
qed

text \<open>
  On the sample stages whose parser takes a comment and reports an illegal character
  for the text \<^verbatim>\<open>#!\<close>: the source with the comment has the value 3.
\<close>

lemma sample_script_eval:
  "fst (returned (eval stages_script (interp0 [] NoStat) ''///usr/bin/env yaegi'' nm inc)) = Some 3 \<and>
   fst (snd (returned (eval stages_script (interp0 [] NoStat) ''///usr/bin/env yaegi'' nm inc)))
     = None"
  by (simp add: returned_def eval_def sample_eval_defs stages_script_def ast_spec_def shebang_def
        parse0_def HasPrefix_def)

text \<open>
  A script with a shebang line and a file without one, read by the driver; and the
  script given to \<^verbatim>\<open>Eval\<close> and to \<^verbatim>\<open>EvalPath\<close>: it has the value 3, with no
  error, where the parser alone reports an illegal character.
\<close>

theorem shebang_line_is_comment_witness:
  "evaluated (main (one_file ''#!/usr/bin/env yaegi'') eval_succeeds False [''script.go'']) =
     Some ''///usr/bin/env yaegi'' \<and>
   evaluated (main (one_file ''package main'') eval_succeeds False [''main.go'']) =
     Some ''package main'' \<and>
   fst (parse0 (interp0 [] NoStat) ''#!/usr/bin/env yaegi'' ''_.go'' True) =
     Done ([], None, Some (ErrorList
       [\<lparr>Pos = \<lparr>Filename = ''_.go'', Offset = 0, Line = 1, Column = 1\<rparr>,
         Msg = ''illegal character''\<rparr>])) \<and>
   fst (Eval stages_script (interp0 [] NoStat) ''#!/usr/bin/env yaegi'') = Some 3 \<and>
   fst (snd (Eval stages_script (interp0 [] NoStat) ''#!/usr/bin/env yaegi'')) = None \<and>
   fst (EvalPath stages_script read_script (interp0 [] NoStat) ''script.go'') = Some 3 \<and>
   fst (snd (EvalPath stages_script read_script (interp0 [] NoStat) ''script.go'')) = None"
proof -
  let ?s = "''#!/usr/bin/env yaegi''"
  have p: "HasPrefix ?s ''#!''" "HasPrefix ''package main'' ''#!'' = False"
    by (simp_all add: HasPrefix_shebang)
  have a: "ast stages_script = ast_spec parse0"
    by (simp add: stages_script_def)
  have d1: "evaluated (main (one_file ?s) eval_succeeds False [''script.go'']) =
              Some ''///usr/bin/env yaegi''"
    using shebang_line_is_comment [where readFile = "one_file ?s" and a = "''script.go''"
        and b = ?s and Eval_err = eval_succeeds and interactive = False and as = "[]",
        THEN conjunct1] p(1)
    by (simp add: one_file_def)
  have d2: "evaluated (main (one_file ''package main'') eval_succeeds False [''main.go'']) =
              Some ''package main''"
    using shebang_line_is_comment [where readFile = "one_file ''package main''"
        and a = "''main.go''" and b = "''package main''" and Eval_err = eval_succeeds
        and interactive = False and as = "[]", THEN conjunct2, THEN conjunct1] p(2)
    by (simp add: one_file_def)
  have d3: "fst (parse0 (interp0 [] NoStat) ?s ''_.go'' True) =
     Done ([], None, Some (ErrorList
       [\<lparr>Pos = \<lparr>Filename = ''_.go'', Offset = 0, Line = 1, Column = 1\<rparr>,
         Msg = ''illegal character''\<rparr>]))"
    by (simp add: parse0_def HasPrefix_def)
  have e1: "returned (eval stages_script (interp0 [] NoStat) ?s [] True) =
            returned (eval stages_script (interp0 [] NoStat) ''///usr/bin/env yaegi'' [] True)"
    using shebang_line_is_comment [where P = stages_script and parse = parse0 and src = ?s
        and interp = "interp0 [] NoStat" and nm = "[]" and inc = True,
        THEN conjunct2, THEN conjunct2, THEN conjunct1] a p(1)
    by simp
  have e2: "returned (EvalPath stages_script read_script (interp0 [] NoStat) ''script.go'') =
            returned (eval stages_script (interp0 [] NoStat) ''///usr/bin/env yaegi''
                        ''script.go'' False)"
    using shebang_line_is_comment [where P = stages_script and parse = parse0 and src = ?s
        and interp = "interp0 [] NoStat" and readF = read_script and pth = "''script.go''",
        THEN conjunct2, THEN conjunct2, THEN conjunct2] a p(1)
    by (simp add: read_script_def)
  have r: "\<And>x. fst x = fst (returned x) \<and> fst (snd x) = fst (snd (returned x))"
    by (simp add: returned_def)
  from sample_script_eval [of "[]" True] e1
  have f1: "fst (Eval stages_script (interp0 [] NoStat) ?s) = Some 3 \<and>
            fst (snd (Eval stages_script (interp0 [] NoStat) ?s)) = None"
    by (simp add: Eval_def r)
  from sample_script_eval [of "''script.go''" False] e2
  have f2: "fst (EvalPath stages_script read_script (interp0 [] NoStat) ''script.go'') = Some 3 \<and>
            fst (snd (EvalPath stages_script read_script (interp0 [] NoStat) ''script.go'')) = None"
    by (simp add: r)
  from d1 d2 d3 f1 f2 show ?thesis by blast
qed

section \<open>Registration of binary packages: what Use changes\<close>

text \<open>
  The two iterations of \<^verbatim>\<open>Use\<close> over an export map whose keys are distinct, as the keys
  of a Go map are.
\<close>

lemma Use_syms_lookup:
  "distinct (map fst v) \<Longrightarrow>
     Use_syms p v s = (case map_of v s of Some x \<Rightarrow> Some x | None \<Rightarrow> p s)"
proof (induction v arbitrary: p)
  case Nil
  show ?case by simp
next
  case (Cons e v)
  obtain s' x where e: "e = (s', x)" by (cases e)
  from Cons.prems e have d: "distinct (map fst v)" and n: "map_of v s' = None"
    by (auto simp: map_of_eq_None_iff)
  have "Use_syms p (e # v) s = Use_syms (p(s' \<mapsto> x)) v s"
    using e by simp
  also have "\<dots> = (case map_of v s of Some y \<Rightarrow> Some y | None \<Rightarrow> (p(s' \<mapsto> x)) s)"
    by (rule Cons.IH [OF d])
  also have "\<dots> = (case map_of (e # v) s of Some y \<Rightarrow> Some y | None \<Rightarrow> p s)"
    using e n by (auto split: option.splits)
  finally show ?case .
qed

lemma Use_loop_binPkg:
  "distinct (map fst values) \<Longrightarrow>
     binPkg (Use_loop hp i values) k =
       (if k = hp then binPkg i k
        else case map_of values k of
               None \<Rightarrow> binPkg i k
             | Some v \<Rightarrow> Some (Use_syms (case binPkg i k of None \<Rightarrow> Map.empty | Some p \<Rightarrow> p) v))"
proof (induction "values" arbitrary: i)
  case Nil
  show ?case by simp
next
  case (Cons e vs)
  obtain k' v' where e: "e = (k', v')" by (cases e)
  from Cons.prems e have d: "distinct (map fst vs)" and n: "map_of vs k' = None"
    by (auto simp: map_of_eq_None_iff)
  show ?case
  proof (cases "k' = hp")
    case True
    from Cons.IH [OF d, of "i\<lparr>hooks := hooks i @ [v']\<rparr>"] e True show ?thesis
      by (simp split: option.splits)
  next
    case False
    let ?p = "case binPkg i k' of None \<Rightarrow> Map.empty | Some p \<Rightarrow> p"
    from Cons.IH [OF d, of "i\<lparr>binPkg := (binPkg i)(k' \<mapsto> Use_syms ?p v')\<rparr>"] e False n
    show ?thesis by (auto simp: Let_def split: option.splits)
  qed
qed

lemma Use_loop_hooks:
  "hooks (Use_loop hp i values) = hooks i @ map snd (filter (\<lambda>e. fst e = hp) values)"
proof (induction "values" arbitrary: i)
  case Nil
  show ?case by simp
next
  case (Cons e vs)
  obtain k' v' where e: "e = (k', v')" by (cases e)
  let ?p = "case binPkg i k' of None \<Rightarrow> Map.empty | Some p \<Rightarrow> p"
  from Cons.IH [of "i\<lparr>hooks := hooks i @ [v']\<rparr>"]
       Cons.IH [of "i\<lparr>binPkg := (binPkg i)(k' \<mapsto> Use_syms ?p v')\<rparr>"] e
  show ?case by (simp add: Let_def)
qed

text \<open>The symbols that \<^verbatim>\<open>fixStdio\<close> sets, and those it leaves.\<close>

lemma fold_redefine:
  "fold (\<lambda>s q. q(s \<mapsto> Stdio pkg s)) names p s =
     (if s \<in> set names then Some (Stdio pkg s) else p s)"
  by (induction names arbitrary: p) auto

lemma redefine_lookup:
  "lookup (redefine pkg names bp) k s =
     (if k = pkg \<and> bp pkg \<noteq> None \<and> s \<in> set names then Some (Stdio pkg s) else lookup bp k s)"
  by (auto simp: redefine_def lookup_def fold_redefine split: option.splits)

lemma redefine_dom: "(redefine pkg names bp k = None) = (bp k = None)"
  by (auto simp: redefine_def split: option.splits)

lemma fixStdio_hooks: "hooks (fixStdio i) = hooks i"
  by (simp add: fixStdio_def split: option.splits)

lemma fixStdio_lookup:
  "lookup (binPkg (fixStdio i)) k s =
     (if redefined (binPkg i) k s then Some (Stdio k s) else lookup (binPkg i) k s)"
proof (cases "binPkg i ''fmt''")
  case None
  then show ?thesis by (simp add: fixStdio_def redefined_def)
next
  case (Some p)
  then show ?thesis
    apply (simp add: fixStdio_def redefined_def redefine_lookup redefine_dom stdio_names_def)
    apply (auto simp: lookup_def split: option.splits)
    done
qed


lemma Use_loop_lookup:
  assumes "distinct (map fst values)" and "\<forall>e \<in> set values. distinct (map fst (snd e))"
  shows "lookup (binPkg (Use_loop hp interp values)) k s =
     (if k = hp then lookup (binPkg interp) k s
      else case map_of values k of
             None \<Rightarrow> lookup (binPkg interp) k s
           | Some v \<Rightarrow> (case map_of v s of
                         Some x \<Rightarrow> Some x
                       | None \<Rightarrow> lookup (binPkg interp) k s))"
proof (cases "k \<noteq> hp \<and> map_of values k \<noteq> None")
  case False
  then show ?thesis
    by (auto simp: lookup_def Use_loop_binPkg [OF assms(1)])
next
  case True
  then obtain v where v: "map_of values k = Some v" and k: "k \<noteq> hp" by auto
  from v have "(k, v) \<in> set values" by (rule map_of_SomeD)
  with assms(2) have d: "distinct (map fst v)" by auto
  show ?thesis
    using v k
    by (auto simp: lookup_def Use_loop_binPkg [OF assms(1)] Use_syms_lookup [OF d]
        split: option.splits)
qed

lemma Use_loop_registered:
  assumes "distinct (map fst values)"
  shows "(binPkg (Use_loop hp interp values) k = None) =
           (binPkg interp k = None \<and> (k = hp \<or> k \<notin> set (map fst values)))"
proof (cases "map_of values k")
  case None
  then have "k \<notin> set (map fst values)" by (simp add: map_of_eq_None_iff)
  with None show ?thesis by (simp add: Use_loop_binPkg [OF assms])
next
  case (Some v)
  then have "(k, v) \<in> set values" by (rule map_of_SomeD)
  then have "k \<in> set (map fst values)" by force
  with Some show ?thesis by (simp add: Use_loop_binPkg [OF assms])
qed

text \<open>
  C9. After \<^verbatim>\<open>Use\<close> with an export map, the symbol \<open>s\<close> of the package \<open>k\<close> of
  the registry is: the value of the map for \<open>k\<close> and \<open>s\<close> when \<open>k\<close> is not the
  path of the hooks and the map has such an entry, and otherwise what it was before
  the call, whatever the path and the name. The entries under the path of the hooks
  are handed to \<^verbatim>\<open>hooks.Parse\<close> and are not added to the registry. One case is
  apart: when the export map has the package \<^verbatim>\<open>fmt\<close>, \<^verbatim>\<open>Use\<close> calls
  \<^verbatim>\<open>fixStdio\<close> at the end, and the print and scan functions of \<^verbatim>\<open>fmt\<close>, as
  well as \<^verbatim>\<open>flag.CommandLine\<close>, the functions of \<^verbatim>\<open>log\<close> and the three
  streams of \<^verbatim>\<open>os\<close> if these packages are registered, are then the interpreter's
  own definitions, bound to its streams.
\<close>

theorem use_merges_exports:
  assumes "distinct (map fst values)" and "\<forall>e \<in> set values. distinct (map fst (snd e))"
  shows "lookup (binPkg (Use hp interp values)) k s =
     (if ''fmt'' \<in> set (map fst values) \<and> redefined (binPkg (Use_loop hp interp values)) k s
      then Some (Stdio k s)
      else if k = hp then lookup (binPkg interp) k s
      else case map_of values k of
             None \<Rightarrow> lookup (binPkg interp) k s
           | Some v \<Rightarrow> (case map_of v s of
                         Some x \<Rightarrow> Some x
                       | None \<Rightarrow> lookup (binPkg interp) k s)) \<and>
   hooks (Use hp interp values) = hooks interp @ map snd (filter (\<lambda>e. fst e = hp) values) \<and>
   (binPkg (Use_loop hp interp values) k = None) =
      (binPkg interp k = None \<and> (k = hp \<or> k \<notin> set (map fst values)))"
  by (simp add: Use_def Let_def fixStdio_lookup fixStdio_hooks Use_loop_hooks
        Use_loop_lookup [OF assms] Use_loop_registered [OF assms(1)])

text \<open>
  The package \<^verbatim>\<open>os\<close> registered on the sample interpreter: its symbols are those
  of the map, and the \<^verbatim>\<open>_error\<close> wrapper registered by \<^verbatim>\<open>New\<close> is unchanged.
\<close>

theorem use_merges_exports_witness:
  "lookup (binPkg (Use hooksPath0 (interp0 [] NoStat) exports_os)) ''os'' ''Stdin'' = Some (Export 1) \<and>
   lookup (binPkg (Use hooksPath0 (interp0 [] NoStat) exports_os)) [] ''_error'' = Some Wrapper_error \<and>
   lookup (binPkg (Use hooksPath0 (interp0 [] NoStat) exports_os)) ''os'' ''Exit'' = None"
proof -
  have d: "distinct (map fst exports_os)" "\<forall>e \<in> set exports_os. distinct (map fst (snd e))"
    by (simp_all add: exports_os_def)
  have f: "''fmt'' \<notin> set (map fst exports_os)" by (simp add: exports_os_def)
  have h: "''os'' \<noteq> hooksPath0" "[] \<noteq> hooksPath0" by (simp_all add: hooksPath0_def)
  from use_merges_exports [OF d, of hooksPath0 "interp0 [] NoStat" "''os''" "''Stdin''"]
       use_merges_exports [OF d, of hooksPath0 "interp0 [] NoStat" "[]" "''_error''"]
       use_merges_exports [OF d, of hooksPath0 "interp0 [] NoStat" "''os''" "''Exit''"] f h
  show ?thesis
    by (simp add: exports_os_def lookup_def interp0_fields)
qed

text \<open>
  The package \<^verbatim>\<open>os\<close> is registered first, then a map with the package
  \<^verbatim>\<open>fmt\<close>: the second call changes \<^verbatim>\<open>os.Stdin\<close>, a symbol that is not in
  its map, and the value registered for \<^verbatim>\<open>fmt.Println\<close> is not the value of the
  map.
\<close>

theorem fixStdio_counterexample:
  "lookup (binPkg (Use hooksPath0 (interp0 [] NoStat) exports_os)) ''os'' ''Stdin'' = Some (Export 1) \<and>
   lookup (binPkg (Use hooksPath0 (Use hooksPath0 (interp0 [] NoStat) exports_os) exports_fmt))
     ''os'' ''Stdin'' = Some (Stdio ''os'' ''Stdin'') \<and>
   lookup (binPkg (Use hooksPath0 (Use hooksPath0 (interp0 [] NoStat) exports_os) exports_fmt))
     ''fmt'' ''Println'' = Some (Stdio ''fmt'' ''Println'')"
  by (simp add: Use_def Let_def fixStdio_def redefine_def lookup_def interp0_fields
        exports_os_def exports_fmt_def hooksPath0_def)

section \<open>Packages preimported by the REPL\<close>

text \<open>
  The symbol of a name after the loop: unchanged for a name that is skipped or that
  no key yields, and otherwise the package of the last key visited that yields it.
\<close>

lemma preimport_sym:
  "sym (preimport f sc ks) nm =
     (if skipName nm \<or> filter (\<lambda>k. f k = nm) ks = [] then sym sc nm
      else Some (pkgSymbol (last (filter (\<lambda>k. f k = nm) ks))))"
  by (induction ks arbitrary: sc) (auto simp: Let_def)

text \<open>The keys that the loop visits are the keys of the registry, each once.\<close>

lemma visited_registry: "orders ks bp \<Longrightarrow> set (visited bp ks) = dom bp \<and> distinct (visited bp ks)"
  by (auto simp: visited_def orders_def)

lemma REPL_entry:
  "REPL P fmtv f ks interp [] = Inr st \<Longrightarrow>
     universe (r_interp st) = preimport f (universe interp) (visited (binPkg interp) ks)"
  by (auto simp: REPL_def Let_def)

text \<open>
  A registered package whose name is not skipped and is the name of no other registered
  package is preimported under its name, whatever the order of the visit.
\<close>

lemma unambiguous_preimported:
  assumes "REPL P fmtv f ks interp [] = Inr st" and "orders ks (binPkg interp)"
    and "binPkg interp k \<noteq> None" and "\<not> skipName (f k)"
    and "\<forall>k'. binPkg interp k' \<noteq> None \<and> f k' = f k \<longrightarrow> k' = k"
  shows "sym (universe (r_interp st)) (f k) = Some (pkgSymbol k)"
proof -
  let ?vs = "visited (binPkg interp) ks"
  let ?xs = "filter (\<lambda>k'. f k' = f k) ?vs"
  from visited_registry [OF assms(2)] have s: "set ?vs = dom (binPkg interp)" by simp
  with assms(3) have "k \<in> set ?vs" by auto
  then have ne: "?xs \<noteq> []" by (auto simp: filter_empty_conv)
  then have "last ?xs \<in> set ?xs" by (rule last_in_set)
  with s assms(5) have "last ?xs = k" by auto
  with ne assms(4) REPL_entry [OF assms(1)] show ?thesis
    by (simp add: preimport_sym)
qed

text \<open>
  C10. The claim is that each registered package is preimported under its name, but
  for the names that are skipped; the comment of the loop says that any package with
  an ambiguous name is skipped. With two packages registered under the paths
  \<^verbatim>\<open>a/x\<close> and \<^verbatim>\<open>b/x\<close>, both yield the name \<^verbatim>\<open>x\<close>, which the loop does not
  skip. At the entry of the REPL the name is bound to the package that the loop visits
  last, which depends on the order in which the map of the registry is visited:
  \<^verbatim>\<open>b/x\<close> in one order, \<^verbatim>\<open>a/x\<close> in another. The other package is not
  preimported, and none of the two is skipped.
\<close>

theorem ambiguous_name_not_skipped:
  "lookup (binPkg (Use hooksPath0 (interp0 [] NoStat) exports_x)) ''a/x'' ''F'' = Some (Export 5) \<and>
   lookup (binPkg (Use hooksPath0 (interp0 [] NoStat) exports_x)) ''b/x'' ''G'' = Some (Export 6) \<and>
   orders [[], ''a/x'', ''b/x''] (binPkg (Use hooksPath0 (interp0 [] NoStat) exports_x)) \<and>
   orders [''b/x'', [], ''a/x''] (binPkg (Use hooksPath0 (interp0 [] NoStat) exports_x)) \<and>
   base_name ''a/x'' = ''x'' \<and> base_name ''b/x'' = ''x'' \<and> \<not> skipName ''x'' \<and>
   sym (universe (interp0 [] NoStat :: (nat, nat, nat, unit) Interpreter)) ''x'' = None \<and>
   sym (universe (r_interp (projr (REPL stages_ok fmt_nat base_name [[], ''a/x'', ''b/x'']
          (Use hooksPath0 (interp0 [] NoStat) exports_x) [])))) ''x'' = Some (pkgSymbol ''b/x'') \<and>
   sym (universe (r_interp (projr (REPL stages_ok fmt_nat base_name [''b/x'', [], ''a/x'']
          (Use hooksPath0 (interp0 [] NoStat) exports_x) [])))) ''x'' = Some (pkgSymbol ''a/x'') \<and>
   (pkgSymbol ''a/x'' :: nat symbol) \<noteq> pkgSymbol ''b/x''"
  by (simp add: REPL_def Let_def Use_def exports_x_def hooksPath0_def lookup_def interp0_fields
        base_name_def skipName_def pkgSymbol_def visited_def orders_def initUniverse_def)

end
